theory Spec2Isabelle
  imports Complex_Main "HOL-Library.Word"
begin

section \<open>Constants\<close>

text \<open>
  The header that declares the dictionary constants is not among the sources
  (\<^verbatim>\<open>defines.h\<close> here is an older revision that has none of them).
\<close>

definition MAX_WORD_LENGTH :: nat where
  \<comment> \<open>Modelled from the spec: the constant's declaration is missing; section 6 gives
      \<^verbatim>\<open>MAX_WORD_LENGTH = 48\<close>.\<close>
  "MAX_WORD_LENGTH = 48"

definition MAX_PROBABILITY :: int where
  \<comment> \<open>Modelled from the spec: the constant's declaration is missing; probabilities are
      0..255 (sections 2 and 3), so the largest one is 255.\<close>
  "MAX_PROBABILITY = 255"

definition NOT_A_PROBABILITY :: int where
  \<comment> \<open>Modelled from the spec: the constant's declaration is missing; section 3 uses it as
      the value of a probability that is absent, so it lies outside 0..255. The model takes
      -1; no theorem below uses more than that it is not in 0..255.\<close>
  "NOT_A_PROBABILITY = - 1"

definition NOT_A_DICT_POS :: int where
  \<comment> \<open>Modelled from the spec: the constant's declaration is missing; section 6 says
      \<^verbatim>\<open>NOT_A_DICT_POS\<close> is encoded as 0.\<close>
  "NOT_A_DICT_POS = 0"

section \<open>Probabilities\<close>

text \<open>
  \<^verbatim>\<open>ProbabilityUtils\<close> (\<^verbatim>\<open>probability_utils.h\<close>) is not among the sources; its two
  functions are modelled from section 4.1 of the spec. The value before rounding is a
  rational number with denominator 16, so it is computed exactly.
\<close>

definition backoff :: "int \<Rightarrow> int" where
  \<comment> \<open>Modelled from the spec: \<^verbatim>\<open>ProbabilityUtils::backoff\<close> is missing. Section 4.1:
      \<^verbatim>\<open>backoff(uni) = uni - 8\<close> clamped to at least 0 when \<^verbatim>\<open>uni\<close> is not
      \<^verbatim>\<open>NOT_A_PROBABILITY\<close>, else \<^verbatim>\<open>NOT_A_PROBABILITY\<close>.\<close>
  "backoff uni = (if uni \<noteq> NOT_A_PROBABILITY then max (uni - 8) 0 else NOT_A_PROBABILITY)"

definition bigramWeight :: "int \<Rightarrow> rat" where
  \<comment> \<open>Modelled from the spec: section 4.1, \<^verbatim>\<open>w(bi) = (bi + 1) / 16\<close>.\<close>
  "bigramWeight bi = of_int (bi + 1) / 16"

definition computeProbabilityForBigram :: "int \<Rightarrow> int \<Rightarrow> int" where
  \<comment> \<open>Modelled from the spec: \<^verbatim>\<open>ProbabilityUtils::computeProbabilityForBigram\<close> is missing.
      Section 4.1: return \<^verbatim>\<open>round(uni + (MAX_PROBABILITY - uni) * w(bi))\<close>; when either
      operand is \<^verbatim>\<open>NOT_A_PROBABILITY\<close>, return \<^verbatim>\<open>backoff(uni)\<close>.\<close>
  "computeProbabilityForBigram uni bi =
     (if uni = NOT_A_PROBABILITY \<or> bi = NOT_A_PROBABILITY then backoff uni
      else round (of_int uni + of_int (MAX_PROBABILITY - uni) * bigramWeight bi))"

text \<open>\<^verbatim>\<open>DynamicPatriciaTriePolicy::getProbability\<close> (dynamic\_patricia\_trie\_policy.cpp).\<close>

definition getProbability :: "int \<Rightarrow> int \<Rightarrow> int" where
  "getProbability unigramProbability bigramProbability =
     (if unigramProbability = NOT_A_PROBABILITY then NOT_A_PROBABILITY
      else if bigramProbability = NOT_A_PROBABILITY then backoff unigramProbability
      else computeProbabilityForBigram unigramProbability bigramProbability)"

section \<open>\<^verbatim>\<open>MultiBigramMap\<close> (multi\_bigram\_map.h)\<close>

text \<open>
  The dictionary is read through \<^verbatim>\<open>getBigramsPositionOfNode\<close> and
  \<^verbatim>\<open>BinaryDictionaryBigramsIterator\<close>, neither of which is among the sources. What the
  functions below use of them is the sequence of entries that the iterator yields for the
  bigram list of a node, each with its \<^verbatim>\<open>getBigramPos()\<close> and \<^verbatim>\<open>getProbability()\<close>.
  A dictionary is therefore a function from a node position to that sequence.
\<close>

type_synonym bigram_lists = "int \<Rightarrow> (int \<times> int) list"

text \<open>
  \<^verbatim>\<open>BloomFilter\<close> is not among the sources.
\<close>

definition BLOOM_FILTER_BITS :: nat where
  \<comment> \<open>Modelled from the spec: section 4.5 speaks of a 256-bit bloom filter.\<close>
  "BLOOM_FILTER_BITS = 256"

definition bloomIndex :: "int \<Rightarrow> nat" where
  \<comment> \<open>Modelled from the spec: \<^verbatim>\<open>BloomFilter\<close> is missing. The glossary describes a
      fixed-size bit array with no false negatives; the bit that a position selects is not
      stated, and the model takes the position modulo the number of bits.\<close>
  "bloomIndex position = nat (position mod int BLOOM_FILTER_BITS)"

definition emptyBloomFilter :: "bool list" where
  \<comment> \<open>Modelled from the spec: a new filter has no bit set.\<close>
  "emptyBloomFilter = replicate BLOOM_FILTER_BITS False"

definition setInFilter :: "bool list \<Rightarrow> int \<Rightarrow> bool list" where
  \<comment> \<open>Modelled from the spec: \<^verbatim>\<open>BloomFilter::setInFilter\<close> is missing; it marks a position.\<close>
  "setInFilter f position = f[bloomIndex position := True]"

definition isInFilter :: "bool list \<Rightarrow> int \<Rightarrow> bool" where
  \<comment> \<open>Modelled from the spec: \<^verbatim>\<open>BloomFilter::isInFilter\<close> is missing; it tests the bit.\<close>
  "isInFilter f position = (bloomIndex position < length f \<and> f ! bloomIndex position)"

record BigramMap =
  mBigramMap :: "int \<rightharpoonup> int"
  mBloomFilter :: "bool list"

definition newBigramMap :: BigramMap where
  "newBigramMap = \<lparr> mBigramMap = Map.empty, mBloomFilter = emptyBloomFilter \<rparr>"

text \<open>One round of the loop of \<^verbatim>\<open>BigramMap::init\<close>, and the loop over the iterator.\<close>

definition initStep :: "BigramMap \<Rightarrow> int \<times> int \<Rightarrow> BigramMap" where
  "initStep m e =
     \<lparr> mBigramMap = (mBigramMap m)(fst e \<mapsto> snd e),
       mBloomFilter = setInFilter (mBloomFilter m) (fst e) \<rparr>"

definition init :: "bigram_lists \<Rightarrow> int \<Rightarrow> BigramMap \<Rightarrow> BigramMap" where
  "init dict nodePos m = foldl initStep m (dict nodePos)"

text \<open>\<^verbatim>\<open>BigramMap::getBigramProbability\<close>.\<close>

definition bigramMapGetBigramProbability :: "BigramMap \<Rightarrow> int \<Rightarrow> int \<Rightarrow> int" where
  "bigramMapGetBigramProbability m nextWordPosition unigramProbability =
     (if isInFilter (mBloomFilter m) nextWordPosition then
        (case mBigramMap m nextWordPosition of
           Some bigramProbability \<Rightarrow>
             computeProbabilityForBigram unigramProbability bigramProbability
         | None \<Rightarrow> backoff unigramProbability)
      else backoff unigramProbability)"

text \<open>
  \<^verbatim>\<open>readBigramProbabilityFromBinaryDictionary\<close>: the loop returns at the first entry whose
  position is the next word's.
\<close>

fun scanBigrams :: "(int \<times> int) list \<Rightarrow> int \<Rightarrow> int \<Rightarrow> int" where
  "scanBigrams [] nextWordPosition unigramProbability = backoff unigramProbability"
| "scanBigrams (e # es) nextWordPosition unigramProbability =
     (if fst e = nextWordPosition
      then computeProbabilityForBigram unigramProbability (snd e)
      else scanBigrams es nextWordPosition unigramProbability)"

definition readBigramProbabilityFromBinaryDictionary ::
  "bigram_lists \<Rightarrow> int \<Rightarrow> int \<Rightarrow> int \<Rightarrow> int" where
  "readBigramProbabilityFromBinaryDictionary dict nodePos nextWordPosition unigramProbability =
     scanBigrams (dict nodePos) nextWordPosition unigramProbability"

text \<open>
  \<^verbatim>\<open>mBigramMaps\<close> is a hash map from word position to \<^verbatim>\<open>BigramMap\<close>; it is an association
  list with one pair per key, so that \<^verbatim>\<open>size()\<close> is its length.
  \<^verbatim>\<open>MAX_CACHED_PREV_WORDS_IN_BIGRAM_MAP\<close> is defined in a file that is not among the
  sources and is a parameter.
\<close>

type_synonym MultiBigramMap = "(int \<times> BigramMap) list"

fun putBigramMap :: "MultiBigramMap \<Rightarrow> int \<Rightarrow> BigramMap \<Rightarrow> MultiBigramMap" where
  "putBigramMap [] k v = [(k, v)]"
| "putBigramMap ((k', v') # rest) k v =
     (if k' = k then (k, v) # rest else (k', v') # putBigramMap rest k v)"

text \<open>
  \<^verbatim>\<open>mBigramMaps[position]\<close>: \<^verbatim>\<open>operator[]\<close> returns the map stored under the key and
  stores a new one first when the key is absent.
\<close>

definition subscriptBigramMaps :: "MultiBigramMap \<Rightarrow> int \<Rightarrow> BigramMap \<times> MultiBigramMap" where
  "subscriptBigramMaps maps position =
     (case map_of maps position of
        None \<Rightarrow> (newBigramMap, putBigramMap maps position newBigramMap)
      | Some m \<Rightarrow> (m, maps))"

definition addBigramsForWordPosition :: "bigram_lists \<Rightarrow> MultiBigramMap \<Rightarrow> int \<Rightarrow> MultiBigramMap" where
  "addBigramsForWordPosition dict maps position =
     (let (m, maps1) = subscriptBigramMaps maps position
      in putBigramMap maps1 position (init dict position m))"

text \<open>\<^verbatim>\<open>MultiBigramMap::getBigramProbability\<close>; it returns the probability and the updated cache.\<close>

definition getBigramProbability ::
  "nat \<Rightarrow> bigram_lists \<Rightarrow> MultiBigramMap \<Rightarrow> int \<Rightarrow> int \<Rightarrow> int \<Rightarrow> int \<times> MultiBigramMap" where
  "getBigramProbability maxCached dict maps wordPosition nextWordPosition unigramProbability =
     (case map_of maps wordPosition of
        Some m \<Rightarrow> (bigramMapGetBigramProbability m nextWordPosition unigramProbability, maps)
      | None \<Rightarrow>
          if length maps < maxCached then
            (let maps1 = addBigramsForWordPosition dict maps wordPosition;
                 (m, maps2) = subscriptBigramMaps maps1 wordPosition
             in (bigramMapGetBigramProbability m nextWordPosition unigramProbability, maps2))
          else
            (readBigramProbabilityFromBinaryDictionary dict wordPosition nextWordPosition
               unigramProbability, maps))"

text \<open>
  The cache of a search holds, for each previous word it has cached, the map built by
  \<^verbatim>\<open>init\<close> from the bigram list of that word.
\<close>

definition cacheOf :: "bigram_lists \<Rightarrow> MultiBigramMap \<Rightarrow> bool" where
  "cacheOf dict maps = list_all (\<lambda>(k, m). m = init dict k newBigramMap) maps"

text \<open>No two entries of a bigram list give the same target two different probabilities.\<close>

definition singleValued :: "(int \<times> int) list \<Rightarrow> bool" where
  "singleValued es = list_all (\<lambda>e. list_all (\<lambda>e'. fst e = fst e' \<longrightarrow> snd e = snd e') es) es"

text \<open>Two small dictionaries: in the first, the bigram list of node 1 names target 7 twice.\<close>

definition dupDict :: bigram_lists where
  "dupDict p = (if p = 1 then [(7, 3), (7, 9)] else [])"

definition okDict :: bigram_lists where
  "okDict p = (if p = 1 then [(7, 3), (8, 9)] else [])"

section \<open>\<^verbatim>\<open>DicNodeUtils::appendTwoWords\<close> (dic\_node\_utils.cpp)\<close>

text \<open>
  A buffer is a list of code points; reading or writing past its end is undefined
  behaviour in C++ and is \<open>None\<close> here. The source and destination buffers are
  distinct objects.

  The scanning loop
  \<^verbatim>\<open>for (int i = 0; i < length; ++i) { if (src[i] == 0) break; actualLength = i + 1; }\<close>
  is \<open>scanWord src length i actualLength\<close>.
\<close>

function scanWord :: "int list \<Rightarrow> int \<Rightarrow> nat \<Rightarrow> nat \<Rightarrow> nat option" where
  "scanWord src len i actualLength =
     (if int i < len then
        (if i < length src then
           (if src ! i = 0 then Some actualLength
            else scanWord src len (i + 1) (i + 1))
         else None)
      else Some actualLength)"
  by pat_completeness auto
termination
  by (relation "measure (\<lambda>(src, len, i, a). nat len - i)") auto

declare scanWord.simps [simp del]

text \<open>\<^verbatim>\<open>memmove(&dest[off], src, n * sizeof(dest[0]))\<close> between distinct buffers.\<close>

definition memmoveWords :: "int list \<Rightarrow> nat \<Rightarrow> int list \<Rightarrow> nat \<Rightarrow> int list option" where
  "memmoveWords dest off src n =
     (if n = 0 then Some dest
      else if off + n \<le> length dest \<and> n \<le> length src
      then Some (take off dest @ take n src @ drop (off + n) dest)
      else None)"

text \<open>
  \<open>src1 = None\<close> is the null pointer. The lengths are \<^verbatim>\<open>int16_t\<close> in the source; they
  are only compared with the loop counter, so \<open>int\<close> models them.
\<close>

definition appendTwoWords ::
  "int list \<Rightarrow> int \<Rightarrow> int list option \<Rightarrow> int \<Rightarrow> int list \<Rightarrow> (int list \<times> nat) option" where
  "appendTwoWords src0 length0 src1 length1 dest =
     (case scanWord src0 length0 0 0 of
        None \<Rightarrow> None
      | Some scanned0 \<Rightarrow>
          let actualLength0 = min scanned0 MAX_WORD_LENGTH in
          (case memmoveWords dest 0 src0 actualLength0 of
             None \<Rightarrow> None
           | Some dest1 \<Rightarrow>
               (case src1 of
                  None \<Rightarrow> Some (dest1, actualLength0)
                | Some s1 \<Rightarrow>
                    if length1 = 0 then Some (dest1, actualLength0)
                    else
                      (case scanWord s1 length1 0 0 of
                         None \<Rightarrow> None
                       | Some scanned1 \<Rightarrow>
                           let actualLength1 = min scanned1 (MAX_WORD_LENGTH - actualLength0) in
                           (case memmoveWords dest1 actualLength0 s1 actualLength1 of
                              None \<Rightarrow> None
                            | Some dest2 \<Rightarrow> Some (dest2, actualLength0 + actualLength1))))))"

text \<open>The word held by the first \<open>len\<close> entries of a buffer: its code points before the first 0.\<close>

definition wordOf :: "int list \<Rightarrow> int \<Rightarrow> int list" where
  "wordOf src len = takeWhile (\<lambda>c. c \<noteq> 0) (take (nat len) src)"

section \<open>\<^verbatim>\<open>DicNodeUtils\<close> scoring (dic\_node\_utils.cpp)\<close>

text \<open>
  \<^verbatim>\<open>DicNode\<close> (\<^verbatim>\<open>dic_node.h\<close>) is not among the sources. The record holds what the
  getters called by the functions modelled here return: \<^verbatim>\<open>hasMultipleWords()\<close>,
  \<^verbatim>\<open>isValidMultipleWordSuggestion()\<close>, \<^verbatim>\<open>getProbability()\<close>, \<^verbatim>\<open>getPtNodePos()\<close>,
  \<^verbatim>\<open>getPrevWordTerminalPtNodePos()\<close>, \<^verbatim>\<open>hasChildren()\<close> and \<^verbatim>\<open>getChildrenPos()\<close>.
\<close>

record DicNode =
  hasMultipleWords :: bool
  isValidMultipleWordSuggestion :: bool
  unigramProbabilityOf :: int
  ptNodePos :: int
  prevWordTerminalPtNodePos :: int
  dicNodeHasChildren :: bool
  dicNodeChildrenPos :: int

text \<open>
  \<^verbatim>\<open>getBigramNodeProbability\<close>. The \<^verbatim>\<open>MultiBigramMap\<close> pointer may be null (\<open>None\<close>);
  a map that is consulted may cache a bigram list, so the map is returned with the result.
\<close>

definition getBigramNodeProbability ::
  "nat \<Rightarrow> bigram_lists \<Rightarrow> DicNode \<Rightarrow> MultiBigramMap option \<Rightarrow> int \<times> MultiBigramMap option" where
  "getBigramNodeProbability maxCached dict dicNode multiBigramMap =
     (let unigramProbability = unigramProbabilityOf dicNode;
          ptNodePos = ptNodePos dicNode;
          prevWordTerminalPtNodePos = prevWordTerminalPtNodePos dicNode
      in if NOT_A_DICT_POS = ptNodePos \<or> NOT_A_DICT_POS = prevWordTerminalPtNodePos
         then (getProbability unigramProbability NOT_A_PROBABILITY, multiBigramMap)
         else
           (case multiBigramMap of
              Some maps \<Rightarrow>
                (let (p, maps') = getBigramProbability maxCached dict maps
                                    prevWordTerminalPtNodePos ptNodePos unigramProbability
                 in (p, Some maps'))
            | None \<Rightarrow> (getProbability unigramProbability NOT_A_PROBABILITY, None)))"

text \<open>
  \<^verbatim>\<open>getBigramNodeImprobability\<close> computes in \<^verbatim>\<open>float\<close>. The float operations it uses are
  parameters: the conversion \<^verbatim>\<open>static_cast<float>\<close> of an \<^verbatim>\<open>int\<close>, the division of two
  floats, and the float value of \<^verbatim>\<open>MAX_VALUE_FOR_WEIGHTING\<close>, whose definition is not among
  the sources.
\<close>

record 'f floatOps =
  toFloat :: "int \<Rightarrow> 'f"
  floatDiv :: "'f \<Rightarrow> 'f \<Rightarrow> 'f"
  maxValueForWeighting :: 'f

definition getBigramNodeImprobability ::
  "'f floatOps \<Rightarrow> nat \<Rightarrow> bigram_lists \<Rightarrow> DicNode \<Rightarrow> MultiBigramMap option
     \<Rightarrow> 'f \<times> MultiBigramMap option" where
  "getBigramNodeImprobability ops maxCached dict dicNode multiBigramMap =
     (if hasMultipleWords dicNode \<and> \<not> isValidMultipleWordSuggestion dicNode
      then (maxValueForWeighting ops, multiBigramMap)
      else
        (let (probability, multiBigramMap') =
               getBigramNodeProbability maxCached dict dicNode multiBigramMap;
             cost = floatDiv ops (toFloat ops (MAX_PROBABILITY - probability))
                      (toFloat ops MAX_PROBABILITY)
         in (cost, multiBigramMap')))"

text \<open>Exact rational arithmetic in place of the float operations, for evaluation.\<close>

definition exactOps :: "rat floatOps" where
  "exactOps = \<lparr> toFloat = of_int, floatDiv = (\<lambda>a b. a / b), maxValueForWeighting = 10000000 \<rparr>"

definition plainNode :: DicNode where
  "plainNode = \<lparr> hasMultipleWords = False, isValidMultipleWordSuggestion = False,
                 unigramProbabilityOf = 100, ptNodePos = 7, prevWordTerminalPtNodePos = 1,
                 dicNodeHasChildren = False, dicNodeChildrenPos = NOT_A_DICT_POS \<rparr>"

section \<open>\<^verbatim>\<open>BigramDictionary\<close> (bigram\_dictionary.cpp)\<close>

text \<open>
  The output arrays are the caller's: \<^verbatim>\<open>bigramProbability\<close> and \<^verbatim>\<open>outputTypes\<close> with one
  cell per result, \<^verbatim>\<open>bigramCodePoints\<close> with \<open>MAX_WORD_LENGTH\<close> cells per result. They are
  lists; an access outside a list is undefined behaviour in C++ and is the error
  \<open>OutOfBounds\<close> here. \<^verbatim>\<open>MAX_RESULTS\<close> and \<^verbatim>\<open>Dictionary::KIND_PREDICTION\<close> are declared in
  files that are not among the sources and are parameters.
\<close>

datatype error = OutOfBounds

record results =
  bigramProbability :: "int list"
  bigramCodePoints :: "int list"
  outputTypes :: "int list"

definition getCodePointCount :: "nat \<Rightarrow> int list \<Rightarrow> nat option" where
  \<comment> \<open>Modelled from the spec: \<^verbatim>\<open>CharUtils::getCodePointCount\<close> is missing. A word buffer is
      terminated by the code point 0 (section 3), so the count is the number of code points
      before the first 0 among the first \<open>arraySize\<close> cells.\<close>
  "getCodePointCount arraySize codePoints = scanWord codePoints (int arraySize) 0 0"

text \<open>The loop that finds the insertion point; \<open>length\<close> is the word's code point count.\<close>

function findInsertAt :: "nat \<Rightarrow> int \<Rightarrow> nat \<Rightarrow> results \<Rightarrow> nat \<Rightarrow> error + nat" where
  "findInsertAt maxResults probability len st insertAt =
     (if insertAt < maxResults then
        (if insertAt < length (bigramProbability st) then
           (if probability > bigramProbability st ! insertAt then Inr insertAt
            else if bigramProbability st ! insertAt = probability then
              (case getCodePointCount MAX_WORD_LENGTH
                      (drop (insertAt * MAX_WORD_LENGTH) (bigramCodePoints st)) of
                 None \<Rightarrow> Inl OutOfBounds
               | Some n \<Rightarrow>
                   if len < n then Inr insertAt
                   else findInsertAt maxResults probability len st (insertAt + 1))
            else findInsertAt maxResults probability len st (insertAt + 1))
         else Inl OutOfBounds)
      else Inr insertAt)"
  by pat_completeness auto
termination
  by (relation "measure (\<lambda>(maxResults, p, l, st, insertAt). maxResults - insertAt)") auto

declare findInsertAt.simps [simp del]

text \<open>\<^verbatim>\<open>memmove(a + dst, a + src, n * sizeof(a[0]))\<close> inside one array.\<close>

definition memmoveWithin :: "int list \<Rightarrow> nat \<Rightarrow> nat \<Rightarrow> nat \<Rightarrow> int list option" where
  "memmoveWithin a dst src n =
     (if n = 0 then Some a
      else if src + n \<le> length a \<and> dst + n \<le> length a
      then Some (take dst a @ take n (drop src a) @ drop (dst + n) a)
      else None)"

definition storeAt :: "int list \<Rightarrow> nat \<Rightarrow> int \<Rightarrow> int list option" where
  "storeAt a i v = (if i < length a then Some (a[i := v]) else None)"

text \<open>\<^verbatim>\<open>while (length--) { *dest++ = *word++; }\<close>\<close>

fun copyWord :: "int list \<Rightarrow> nat \<Rightarrow> int list \<Rightarrow> nat \<Rightarrow> nat \<Rightarrow> int list option" where
  "copyWord dest d word w 0 = Some dest"
| "copyWord dest d word w (Suc n) =
     (if w < length word then
        (case storeAt dest d (word ! w) of
           None \<Rightarrow> None
         | Some dest' \<Rightarrow> copyWord dest' (d + 1) word (w + 1) n)
      else None)"

text \<open>
  \<^verbatim>\<open>addWordBigram\<close>. It writes \<^verbatim>\<open>word[length] = 0\<close> into the word buffer first, so the
  buffer is returned with the arrays.
\<close>

definition addWordBigram ::
  "nat \<Rightarrow> int \<Rightarrow> int list \<Rightarrow> nat \<Rightarrow> int \<Rightarrow> results \<Rightarrow> error + (int list \<times> results)" where
  "addWordBigram maxResults kindPrediction word len probability st =
     (case storeAt word len 0 of
        None \<Rightarrow> Inl OutOfBounds
      | Some word1 \<Rightarrow>
          (case findInsertAt maxResults probability len st 0 of
             Inl e \<Rightarrow> Inl e
           | Inr insertAt \<Rightarrow>
               if insertAt \<ge> maxResults then Inr (word1, st)
               else
                 (case memmoveWithin (bigramProbability st) (insertAt + 1) insertAt
                         (maxResults - insertAt - 1) of
                    None \<Rightarrow> Inl OutOfBounds
                  | Some probs1 \<Rightarrow>
                 (case storeAt probs1 insertAt probability of
                    None \<Rightarrow> Inl OutOfBounds
                  | Some probs2 \<Rightarrow>
                 (case storeAt (outputTypes st) insertAt kindPrediction of
                    None \<Rightarrow> Inl OutOfBounds
                  | Some types1 \<Rightarrow>
                 (case memmoveWithin (bigramCodePoints st)
                         ((insertAt + 1) * MAX_WORD_LENGTH) (insertAt * MAX_WORD_LENGTH)
                         ((maxResults - insertAt - 1) * MAX_WORD_LENGTH) of
                    None \<Rightarrow> Inl OutOfBounds
                  | Some cps1 \<Rightarrow>
                 (case copyWord cps1 (insertAt * MAX_WORD_LENGTH) word1 0 len of
                    None \<Rightarrow> Inl OutOfBounds
                  | Some cps2 \<Rightarrow>
                 (case storeAt cps2 (insertAt * MAX_WORD_LENGTH + len) 0 of
                    None \<Rightarrow> Inl OutOfBounds
                  | Some cps3 \<Rightarrow>
                      Inr (word1, \<lparr> bigramProbability = probs2, bigramCodePoints = cps3,
                                     outputTypes = types1 \<rparr>)))))))))"





text \<open>What the arrays hold: for each slot its probability and the word before the first 0.\<close>

definition slotOf :: "int list \<Rightarrow> nat \<Rightarrow> int list" where
  "slotOf cps i = take MAX_WORD_LENGTH (drop (i * MAX_WORD_LENGTH) cps)"

definition slotWord :: "int list \<Rightarrow> nat \<Rightarrow> int list" where
  "slotWord cps i = takeWhile (\<lambda>c. c \<noteq> 0) (slotOf cps i)"

definition entriesOf :: "nat \<Rightarrow> results \<Rightarrow> (int \<times> int list) list" where
  "entriesOf maxResults st =
     map (\<lambda>i. (bigramProbability st ! i, slotWord (bigramCodePoints st) i)) [0..<maxResults]"






subsection \<open>\<^verbatim>\<open>getPredictions\<close>\<close>

text \<open>
  The dictionary is reached through the virtual interface of the structure policy and
  through \<^verbatim>\<open>BinaryDictionaryBigramsIterator\<close>. The record holds the functions that
  \<^verbatim>\<open>getPredictions\<close> calls: the lookup of a word, the position of a node's bigram list,
  the entries that the iterator yields at a list position (target position and bigram
  probability), and \<^verbatim>\<open>getCodePointsAndProbabilityAndReturnCodePointCount\<close>, which gives
  the code points it writes to the buffer and the unigram probability; the count it returns
  is the number of code points.
\<close>

record policy =
  policyGetTerminalNodePositionOfWord :: "int list \<Rightarrow> int \<Rightarrow> bool \<Rightarrow> int"
  policyGetBigramsPositionOfNode :: "int \<Rightarrow> int"
  policyBigramEntries :: "int \<Rightarrow> (int \<times> int) list"
  policyGetCodePointsAndProbability :: "int \<Rightarrow> nat \<Rightarrow> int list \<times> int"

text \<open>
  \<^verbatim>\<open>MAX_RESULTS\<close>, \<^verbatim>\<open>Dictionary::KIND_PREDICTION\<close>, \<^verbatim>\<open>MAX_ALTERNATIVES\<close> and
  \<^verbatim>\<open>CharUtils::toBaseLowerCase\<close> are not among the sources; they are parameters.
\<close>

record environment =
  envMaxResults :: nat
  envKindPrediction :: int
  envMaxAlternatives :: nat
  envToBaseLowerCase :: "int \<Rightarrow> int"

definition NOT_A_VALID_WORD_POS :: int where
  \<comment> \<open>Modelled from the spec: the constant's declaration is missing; section 7 names it as
      the sentinel that a lookup returns. The model takes -99, the value of
      \<^verbatim>\<open>NOT_VALID_WORD\<close> in the older \<^verbatim>\<open>defines.h\<close> that is among the sources.\<close>
  "NOT_A_VALID_WORD_POS = - 99"

definition getBigramListPositionForWord :: "policy \<Rightarrow> int list \<Rightarrow> int \<Rightarrow> bool \<Rightarrow> int" where
  "getBigramListPositionForWord pol prevWord prevWordLength forceLowerCaseSearch =
     (if 0 \<ge> prevWordLength then NOT_A_DICT_POS
      else
        (let pos = policyGetTerminalNodePositionOfWord pol prevWord prevWordLength
                     forceLowerCaseSearch
         in if NOT_A_VALID_WORD_POS = pos then NOT_A_DICT_POS
            else policyGetBigramsPositionOfNode pol pos))"

text \<open>The loop of \<^verbatim>\<open>checkFirstCharacter\<close>; \<open>k\<close> is how far \<^verbatim>\<open>inputCodePoints\<close> has advanced.\<close>

fun checkFirstCharacterLoop ::
  "(int \<Rightarrow> int) \<Rightarrow> int \<Rightarrow> int list \<Rightarrow> nat \<Rightarrow> nat \<Rightarrow> error + bool" where
  "checkFirstCharacterLoop toBase firstBaseLowerCodePoint inputCodePoints k 0 = Inr False"
| "checkFirstCharacterLoop toBase firstBaseLowerCodePoint inputCodePoints k (Suc maxAlt) =
     (if k < length inputCodePoints then
        (if toBase (inputCodePoints ! k) = firstBaseLowerCodePoint then Inr True
         else checkFirstCharacterLoop toBase firstBaseLowerCodePoint inputCodePoints (k + 1) maxAlt)
      else Inl OutOfBounds)"

definition checkFirstCharacter :: "environment \<Rightarrow> int list \<Rightarrow> int list \<Rightarrow> error + bool" where
  "checkFirstCharacter env word inputCodePoints =
     (case word of
        [] \<Rightarrow> Inl OutOfBounds
      | c # _ \<Rightarrow>
          checkFirstCharacterLoop (envToBaseLowerCase env) (envToBaseLowerCase env c)
            inputCodePoints 0 (envMaxAlternatives env))"

text \<open>
  The loop over the iterator. \<open>bigramBuffer\<close> is the local array of \<open>MAX_WORD_LENGTH\<close>
  cells that the policy fills and \<^verbatim>\<open>addWordBigram\<close> terminates.
\<close>

fun predictionLoop ::
  "environment \<Rightarrow> policy \<Rightarrow> int list \<Rightarrow> int \<Rightarrow> (int \<times> int) list \<Rightarrow> int list \<Rightarrow> results
     \<Rightarrow> int \<Rightarrow> error + (int \<times> results)" where
  "predictionLoop env pol inputCodePoints inputSize [] bigramBuffer st bigramCount =
     Inr (bigramCount, st)"
| "predictionLoop env pol inputCodePoints inputSize ((bigramPos, bigramProbabilityTemp) # rest)
     bigramBuffer st bigramCount =
     (let (codePoints, unigramProbability) =
            policyGetCodePointsAndProbability pol bigramPos MAX_WORD_LENGTH;
          len = length codePoints
      in if len > length bigramBuffer then Inl OutOfBounds
         else
           (let bigramBuffer1 = codePoints @ drop len bigramBuffer in
            (case (if inputSize < 1 then Inr True
                   else checkFirstCharacter env bigramBuffer1 inputCodePoints) of
               Inl e \<Rightarrow> Inl e
             | Inr False \<Rightarrow>
                 predictionLoop env pol inputCodePoints inputSize rest bigramBuffer1 st bigramCount
             | Inr True \<Rightarrow>
                 (let probability =
                        computeProbabilityForBigram unigramProbability bigramProbabilityTemp
                  in (case addWordBigram (envMaxResults env) (envKindPrediction env)
                             bigramBuffer1 len probability st of
                        Inl e \<Rightarrow> Inl e
                      | Inr (bigramBuffer2, st') \<Rightarrow>
                          predictionLoop env pol inputCodePoints inputSize rest bigramBuffer2 st'
                            (bigramCount + 1))))))"

text \<open>
  \<^verbatim>\<open>getPredictions\<close>; \<open>bigramBuffer\<close> is the content of the local array when the loop
  starts. The result is the returned count and the arrays.
\<close>

definition getPredictions ::
  "environment \<Rightarrow> policy \<Rightarrow> int list \<Rightarrow> int \<Rightarrow> int list \<Rightarrow> int \<Rightarrow> int list \<Rightarrow> results
     \<Rightarrow> error + (int \<times> results)" where
  "getPredictions env pol prevWord prevWordLength inputCodePoints inputSize bigramBuffer st =
     (let pos0 = getBigramListPositionForWord pol prevWord prevWordLength False;
          pos = (if NOT_A_DICT_POS = pos0
                 then getBigramListPositionForWord pol prevWord prevWordLength True
                 else pos0)
      in if NOT_A_DICT_POS = pos then Inr (0, st)
         else
           (case predictionLoop env pol inputCodePoints inputSize (policyBigramEntries pol pos)
                   bigramBuffer st 0 of
              Inl e \<Rightarrow> Inl e
            | Inr (bigramCount, st') \<Rightarrow> Inr (min bigramCount (int (envMaxResults env)), st')))"

text \<open>
  A dictionary in which the word \<open>a\<close> (node 5, bigram list at 9) has one bigram, to node 20,
  whose word has \<open>MAX_WORD_LENGTH\<close> code points; and arrays for two results that hold the
  word \<open>b\<close> with probability 50.
\<close>

definition longWordPolicy :: policy where
  "longWordPolicy =
     \<lparr> policyGetTerminalNodePositionOfWord =
         (\<lambda>w n lower. if take (nat n) w = [97] then 5 else NOT_A_VALID_WORD_POS),
       policyGetBigramsPositionOfNode = (\<lambda>p. if p = 5 then 9 else NOT_A_DICT_POS),
       policyBigramEntries = (\<lambda>p. if p = 9 then [(20, 3)] else []),
       policyGetCodePointsAndProbability =
         (\<lambda>p m. if p = 20 then (replicate MAX_WORD_LENGTH 97, 100) else ([], NOT_A_PROBABILITY)) \<rparr>"

definition plainEnvironment :: environment where
  "plainEnvironment =
     \<lparr> envMaxResults = 2, envKindPrediction = 8, envMaxAlternatives = 1,
       envToBaseLowerCase = (\<lambda>c. c) \<rparr>"

definition oneWordResults :: results where
  "oneWordResults =
     \<lparr> bigramProbability = [50, 0],
       bigramCodePoints = 98 # replicate (2 * MAX_WORD_LENGTH - 1) 0,
       outputTypes = [8, 0] \<rparr>"

section \<open>The dictionary buffer and its fields\<close>

text \<open>
  \<^verbatim>\<open>BufferWithExtendableBuffer\<close>, \<^verbatim>\<open>DynamicPatriciaTrieWritingUtils\<close>,
  \<^verbatim>\<open>DynamicPatriciaTrieReadingUtils\<close> and \<^verbatim>\<open>PatriciaTrieReadingUtils\<close> are not among
  the sources. This section models them from sections 3, 4.4, 6 and 7 of the spec: a byte
  buffer with an extendable tail and a cap, little-endian fields, and the PtNode layout
  \<^verbatim>\<open>flags(1) | parentOffset(3, signed) | codePointCount | codePoints | [probability(1)] |
  childrenPos(3) | [shortcuts] | [bigrams]\<close>.
\<close>

record dictBuffer =
  content :: "nat list"
  maxSize :: nat

definition getTailPosition :: "dictBuffer \<Rightarrow> int" where
  \<comment> \<open>Modelled from the spec: \<^verbatim>\<open>BufferWithExtendableBuffer::getTailPosition\<close> is missing;
      the tail is the end of the bytes in use (original buffer plus used tail).\<close>
  "getTailPosition b = int (length (content b))"

definition byteAt :: "dictBuffer \<Rightarrow> int \<Rightarrow> nat" where
  \<comment> \<open>Modelled from the spec: a byte of the buffer; a position outside the bytes in use is a
      bad offset (section 7) and reads as 0 in the model.\<close>
  "byteAt b pos = (if 0 \<le> pos \<and> pos < getTailPosition b then content b ! nat pos else 0)"

definition writeBytes :: "dictBuffer \<Rightarrow> int \<Rightarrow> nat list \<Rightarrow> dictBuffer option" where
  \<comment> \<open>Modelled from the spec: the write primitive of the buffer is missing. Section 4.4:
      mutations append to the extendable tail, and patch existing bytes in place; section 7:
      a write that would take the tail past its cap fails. A failed write changes nothing.\<close>
  "writeBytes b pos bs =
     (if pos = getTailPosition b then
        (if length (content b) + length bs \<le> maxSize b
         then Some (b\<lparr>content := content b @ bs\<rparr>) else None)
      else if 0 \<le> pos \<and> pos + int (length bs) \<le> getTailPosition b then
        Some (b\<lparr>content := take (nat pos) (content b) @ bs
                              @ drop (nat pos + length bs) (content b)\<rparr>)
      else None)"

definition uintBytes :: "nat \<Rightarrow> nat \<Rightarrow> nat list" where
  \<comment> \<open>Modelled from the spec: section 6, fields are little-endian.\<close>
  "uintBytes n v = map (\<lambda>i. (v div 256 ^ i) mod 256) [0..<n]"

definition readUint :: "dictBuffer \<Rightarrow> nat \<Rightarrow> int \<Rightarrow> nat" where
  \<comment> \<open>Modelled from the spec: section 6, fields are little-endian.\<close>
  "readUint b n pos = sum_list (map (\<lambda>i. byteAt b (pos + int i) * 256 ^ i) [0..<n])"

definition writeUint :: "dictBuffer \<Rightarrow> nat \<Rightarrow> int \<Rightarrow> int \<Rightarrow> (dictBuffer \<times> int) option" where
  \<comment> \<open>Modelled from the spec: writes a field of \<open>n\<close> bytes and advances the position; a value
      that does not fit the field cannot be written.\<close>
  "writeUint b n v pos =
     (if 0 \<le> v \<and> v < 256 ^ n then
        (case writeBytes b pos (uintBytes n (nat v)) of
           None \<Rightarrow> None
         | Some b' \<Rightarrow> Some (b', pos + int n))
      else None)"

subsection \<open>Node flags\<close>

text \<open>
  The flags of section 3 in one byte. The spec names the flags and not their bits; the
  bits below are the model's choice. The two high bits hold one of three states: the node
  is in place, moved, or deleted.
\<close>

definition FLAG_IS_BLACKLISTED :: nat where "FLAG_IS_BLACKLISTED = 1"
definition FLAG_IS_NOT_A_WORD :: nat where "FLAG_IS_NOT_A_WORD = 2"
definition FLAG_HAS_BIGRAMS :: nat where "FLAG_HAS_BIGRAMS = 4"
definition FLAG_HAS_SHORTCUT_TARGETS :: nat where "FLAG_HAS_SHORTCUT_TARGETS = 8"
definition FLAG_IS_TERMINAL :: nat where "FLAG_IS_TERMINAL = 16"
definition FLAG_HAS_MULTIPLE_CHARS :: nat where "FLAG_HAS_MULTIPLE_CHARS = 32"
definition FLAG_IS_MOVED :: nat where "FLAG_IS_MOVED = 64"
definition FLAG_IS_DELETED :: nat where "FLAG_IS_DELETED = 128"
definition FLAG_IS_NOT_MOVED :: nat where "FLAG_IS_NOT_MOVED = 192"

definition hasFlag :: "nat \<Rightarrow> nat \<Rightarrow> bool" where
  "hasFlag flags flagBit = ((flags div flagBit) mod 2 = 1)"

definition createAndGetFlags ::
  "bool \<Rightarrow> bool \<Rightarrow> bool \<Rightarrow> bool \<Rightarrow> bool \<Rightarrow> bool \<Rightarrow> int \<Rightarrow> nat" where
  \<comment> \<open>Modelled from the spec: \<^verbatim>\<open>PatriciaTrieReadingUtils::createAndGetFlags\<close> is missing.
      It builds the flags byte; a children position field of 3 bytes is the state of a node
      in place.\<close>
  "createAndGetFlags isBlacklisted isNotAWord isTerminal hasShortcutTargets hasBigrams
     hasMultipleChars childrenPositionFieldSize =
     (if isBlacklisted then FLAG_IS_BLACKLISTED else 0)
     + (if isNotAWord then FLAG_IS_NOT_A_WORD else 0)
     + (if hasBigrams then FLAG_HAS_BIGRAMS else 0)
     + (if hasShortcutTargets then FLAG_HAS_SHORTCUT_TARGETS else 0)
     + (if isTerminal then FLAG_IS_TERMINAL else 0)
     + (if hasMultipleChars then FLAG_HAS_MULTIPLE_CHARS else 0)
     + (if childrenPositionFieldSize = 3 then FLAG_IS_NOT_MOVED else 0)"

definition updateAndGetFlags :: "nat \<Rightarrow> bool \<Rightarrow> bool \<Rightarrow> nat" where
  \<comment> \<open>Modelled from the spec: \<^verbatim>\<open>DynamicPatriciaTrieReadingUtils::updateAndGetFlags\<close> is
      missing. It replaces the moved/deleted state and keeps the other flags.\<close>
  "updateAndGetFlags originalFlags isMoved isDeleted =
     originalFlags mod 64
     + (if isMoved then FLAG_IS_MOVED else if isDeleted then FLAG_IS_DELETED
        else FLAG_IS_NOT_MOVED)"

definition flagsIsMoved :: "nat \<Rightarrow> bool" where
  "flagsIsMoved flags = (flags div 64 = 1)"

definition flagsIsDeleted :: "nat \<Rightarrow> bool" where
  "flagsIsDeleted flags = (flags div 64 = 2)"

subsection \<open>Field readers and writers\<close>

definition getFlagsAndAdvancePosition :: "dictBuffer \<Rightarrow> int \<Rightarrow> nat \<times> int" where
  \<comment> \<open>Modelled from the spec: flags(1).\<close>
  "getFlagsAndAdvancePosition b pos = (byteAt b pos, pos + 1)"

definition writeFlagsAndAdvancePosition ::
  "dictBuffer \<Rightarrow> nat \<Rightarrow> int \<Rightarrow> (dictBuffer \<times> int) option" where
  \<comment> \<open>Modelled from the spec: flags(1).\<close>
  "writeFlagsAndAdvancePosition b nodeFlags pos = writeUint b 1 (int nodeFlags) pos"

definition readParentOffset :: "dictBuffer \<Rightarrow> int \<Rightarrow> int" where
  \<comment> \<open>Modelled from the spec: parentOffset(3, signed), in two's complement.\<close>
  "readParentOffset b pos =
     (let v = int (readUint b 3 pos) in if v \<ge> 2 ^ 23 then v - 2 ^ 24 else v)"

definition writeParentOffsetAndAdvancePosition ::
  "dictBuffer \<Rightarrow> int \<Rightarrow> int \<Rightarrow> (dictBuffer \<times> int) option" where
  \<comment> \<open>Modelled from the spec: parentOffset(3, signed), in two's complement; an offset that
      does not fit cannot be written.\<close>
  "writeParentOffsetAndAdvancePosition b parentOffset pos =
     (if - (2 ^ 23) \<le> parentOffset \<and> parentOffset < 2 ^ 23
      then writeUint b 3 (parentOffset mod 2 ^ 24) pos else None)"

definition readChildrenPosition :: "dictBuffer \<Rightarrow> int \<Rightarrow> int" where
  \<comment> \<open>Modelled from the spec: childrenPos(3); \<open>NOT_A_DICT_POS\<close> is encoded as 0.\<close>
  "readChildrenPosition b pos = int (readUint b 3 pos)"

definition writeChildrenPositionAndAdvancePosition ::
  "dictBuffer \<Rightarrow> int \<Rightarrow> int \<Rightarrow> (dictBuffer \<times> int) option" where
  \<comment> \<open>Modelled from the spec: childrenPos(3).\<close>
  "writeChildrenPositionAndAdvancePosition b childrenPosition pos = writeUint b 3 childrenPosition pos"

definition readForwardLinkPosition :: "dictBuffer \<Rightarrow> int \<Rightarrow> int" where
  \<comment> \<open>Modelled from the spec: forwardLinkPos(3); 0 when there is no further array.\<close>
  "readForwardLinkPosition b pos = int (readUint b 3 pos)"

definition writeForwardLinkPositionAndAdvancePosition ::
  "dictBuffer \<Rightarrow> int \<Rightarrow> int \<Rightarrow> (dictBuffer \<times> int) option" where
  \<comment> \<open>Modelled from the spec: forwardLinkPos(3).\<close>
  "writeForwardLinkPositionAndAdvancePosition b forwardLinkPos pos = writeUint b 3 forwardLinkPos pos"

definition writeProbabilityAndAdvancePosition ::
  "dictBuffer \<Rightarrow> int \<Rightarrow> int \<Rightarrow> (dictBuffer \<times> int) option" where
  \<comment> \<open>Modelled from the spec: probability(1), 0..255.\<close>
  "writeProbabilityAndAdvancePosition b probability pos = writeUint b 1 probability pos"

text \<open>
  The spec gives the PtNodeArray count 1 or 2 bytes and leaves the widths of the code point
  count and of a code point open. The model takes one byte for a count below 128 and two
  bytes above, one byte for the code point count and three bytes for a code point.
\<close>

definition readPtNodeArraySize :: "dictBuffer \<Rightarrow> int \<Rightarrow> nat \<times> int" where
  \<comment> \<open>Modelled from the spec: count(1-2).\<close>
  "readPtNodeArraySize b pos =
     (let b0 = byteAt b pos in
      if b0 < 128 then (b0, pos + 1)
      else ((b0 - 128) * 256 + byteAt b (pos + 1), pos + 2))"

definition writePtNodeArraySizeAndAdvancePosition ::
  "dictBuffer \<Rightarrow> nat \<Rightarrow> int \<Rightarrow> (dictBuffer \<times> int) option" where
  \<comment> \<open>Modelled from the spec: count(1-2).\<close>
  "writePtNodeArraySizeAndAdvancePosition b arraySize pos =
     (if arraySize < 128 then writeUint b 1 (int arraySize) pos
      else if arraySize < 32768 then
        (case writeBytes b pos [128 + arraySize div 256, arraySize mod 256] of
           None \<Rightarrow> None
         | Some b' \<Rightarrow> Some (b', pos + 2))
      else None)"

definition CODE_POINT_SIZE :: nat where
  "CODE_POINT_SIZE = 3"

definition readCodePoints :: "dictBuffer \<Rightarrow> int \<Rightarrow> int list \<times> int" where
  \<comment> \<open>Modelled from the spec: codePointCount | codePoints.\<close>
  "readCodePoints b pos =
     (let n = byteAt b pos in
      (map (\<lambda>i. int (readUint b CODE_POINT_SIZE (pos + 1 + int (CODE_POINT_SIZE * i)))) [0..<n],
       pos + 1 + int (CODE_POINT_SIZE * n)))"

definition writeCodePointsAndAdvancePosition ::
  "dictBuffer \<Rightarrow> int list \<Rightarrow> int \<Rightarrow> int \<Rightarrow> (dictBuffer \<times> int) option" where
  \<comment> \<open>Modelled from the spec: codePointCount | codePoints; a node has at least one code
      point (section 3), and what does not fit its field cannot be written.\<close>
  "writeCodePointsAndAdvancePosition b codePoints codePointCount pos =
     (if 1 \<le> codePointCount \<and> codePointCount < 256
         \<and> nat codePointCount \<le> length codePoints
         \<and> (\<forall>c \<in> set (take (nat codePointCount) codePoints). 0 \<le> c \<and> c < 256 ^ CODE_POINT_SIZE)
      then
        (case writeBytes b pos
                (nat codePointCount
                 # concat (map (\<lambda>c. uintBytes CODE_POINT_SIZE (nat c))
                             (take (nat codePointCount) codePoints))) of
           None \<Rightarrow> None
         | Some b' \<Rightarrow> Some (b', pos + 1 + int CODE_POINT_SIZE * codePointCount))
      else None)"

section \<open>Reading PtNodes\<close>

text \<open>
  The bigram and shortcut list policies (\<^verbatim>\<open>DynamicBigramListPolicy\<close>,
  \<^verbatim>\<open>DynamicShortcutListPolicy\<close>) are not among the sources, and the spec does not give
  the layout of the lists. The functions of the two policies that the trie code calls are
  parameters, collected in one record together with \<^verbatim>\<open>CharUtils::toLowerCase\<close> (not among
  the sources either) and the two bounds by which the reading helper protects itself
  against cycles (section 7). A policy function that can fail returns its success flag with
  the buffer as it left it.
\<close>

record trieEnv =
  skipAllShortcuts :: "dictBuffer \<Rightarrow> int \<Rightarrow> int"
  skipAllBigrams :: "dictBuffer \<Rightarrow> int \<Rightarrow> int"
  copyAllShortcutsAndReturnIfSucceededOrNot ::
    "dictBuffer \<Rightarrow> int \<Rightarrow> int \<Rightarrow> bool \<times> dictBuffer \<times> int"
  copyAllBigrams :: "dictBuffer \<Rightarrow> int \<Rightarrow> int \<Rightarrow> bool \<times> dictBuffer \<times> int \<times> int"
  writeNewBigramEntry :: "dictBuffer \<Rightarrow> int \<Rightarrow> int \<Rightarrow> int \<Rightarrow> bool \<times> dictBuffer \<times> int"
  addNewBigramEntryToBigramList :: "dictBuffer \<Rightarrow> int \<Rightarrow> int \<Rightarrow> int \<Rightarrow> bool \<times> dictBuffer"
  removeBigram :: "dictBuffer \<Rightarrow> int \<Rightarrow> int \<Rightarrow> bool \<times> dictBuffer"
  toLowerCase :: "int \<Rightarrow> int"
  maxChildCount :: nat
  maxNodeArrayCount :: nat

subsection \<open>\<^verbatim>\<open>DynamicPatriciaTrieNodeReader\<close>\<close>

text \<open>
  The node reader is not among the sources; the record holds what its getters return
  after a node has been fetched.
\<close>

record nodeReader =
  nrHeadPos :: int
  nrFlags :: nat
  nrParentPos :: int
  nrCodePoints :: "int list"
  nrProbability :: int
  nrProbabilityFieldPos :: int
  nrChildrenPos :: int
  nrChildrenPosFieldPos :: int
  nrShortcutPos :: int
  nrBigramsPos :: int
  nrSiblingPos :: int

definition nrIsTerminal :: "nodeReader \<Rightarrow> bool" where
  "nrIsTerminal n = hasFlag (nrFlags n) FLAG_IS_TERMINAL"

definition nrIsDeleted :: "nodeReader \<Rightarrow> bool" where
  "nrIsDeleted n = flagsIsDeleted (nrFlags n)"

definition nrIsBlacklisted :: "nodeReader \<Rightarrow> bool" where
  "nrIsBlacklisted n = hasFlag (nrFlags n) FLAG_IS_BLACKLISTED"

definition nrIsNotAWord :: "nodeReader \<Rightarrow> bool" where
  "nrIsNotAWord n = hasFlag (nrFlags n) FLAG_IS_NOT_A_WORD"

definition nrHasChildren :: "nodeReader \<Rightarrow> bool" where
  \<comment> \<open>Modelled from the spec: section 3, \<^verbatim>\<open>childrenPos\<close> is the offset of the child array or
      \<^verbatim>\<open>NOT_A_DICT_POS\<close>.\<close>
  "nrHasChildren n = (nrChildrenPos n \<noteq> NOT_A_DICT_POS)"

definition nrCodePointCount :: "nodeReader \<Rightarrow> nat" where
  "nrCodePointCount n = length (nrCodePoints n)"

definition parsePtNode :: "trieEnv \<Rightarrow> dictBuffer \<Rightarrow> int \<Rightarrow> nodeReader" where
  \<comment> \<open>Modelled from the spec: the layout of section 6. The writing helper always writes the
      children position field, so it is always read.\<close>
  "parsePtNode env b pos =
     (let flags = fst (getFlagsAndAdvancePosition b pos);
          parentOffset = readParentOffset b (pos + 1);
          codePoints = fst (readCodePoints b (pos + 4));
          p1 = snd (readCodePoints b (pos + 4));
          isTerminal = hasFlag flags FLAG_IS_TERMINAL;
          p2 = (if isTerminal then p1 + 1 else p1);
          p3 = p2 + 3;
          hasShortcuts = hasFlag flags FLAG_HAS_SHORTCUT_TARGETS;
          p4 = (if hasShortcuts then skipAllShortcuts env b p3 else p3);
          hasBigrams = hasFlag flags FLAG_HAS_BIGRAMS;
          p5 = (if hasBigrams then skipAllBigrams env b p4 else p4)
      in \<lparr> nrHeadPos = pos,
           nrFlags = flags,
           nrParentPos = (if parentOffset \<noteq> 0 then pos + parentOffset else NOT_A_DICT_POS),
           nrCodePoints = codePoints,
           nrProbability = (if isTerminal then int (byteAt b p1) else NOT_A_PROBABILITY),
           nrProbabilityFieldPos = (if isTerminal then p1 else NOT_A_DICT_POS),
           nrChildrenPos = readChildrenPosition b p2,
           nrChildrenPosFieldPos = p2,
           nrShortcutPos = (if hasShortcuts then p3 else NOT_A_DICT_POS),
           nrBigramsPos = (if hasBigrams then p4 else NOT_A_DICT_POS),
           nrSiblingPos = p5 \<rparr>)"

definition fetchNodeInfoFromBuffer :: "trieEnv \<Rightarrow> dictBuffer \<Rightarrow> int \<Rightarrow> nodeReader" where
  \<comment> \<open>Modelled from the spec: a moved node is a redirect that the reader follows once
      (section 3). The moved position is in the parent offset field, as the comments of
      \<^verbatim>\<open>markNodeAsMovedAndSetPosition\<close> in the source say. The sibling of a moved node is the
      node that follows the original.\<close>
  "fetchNodeInfoFromBuffer env b pos =
     (let n = parsePtNode env b pos in
      if flagsIsMoved (nrFlags n)
      then (parsePtNode env b (nrParentPos n))\<lparr> nrSiblingPos := nrSiblingPos n \<rparr>
      else n)"

subsection \<open>\<^verbatim>\<open>DynamicPatriciaTrieReadingHelper\<close>\<close>

text \<open>
  The reading helper is not among the sources. Its state is modelled from section 4.3 of
  the spec (walk a PtNodeArray, follow the forward link to the next array, descend to the
  children) and from section 7 (a cycle or a bad offset puts the reader in its error state,
  which is also an end state).
\<close>

record readingHelper =
  rhIsError :: bool
  rhPos :: int
  rhNodeCount :: nat
  rhPrevTotalCodePointCount :: nat
  rhTotalNodeCount :: nat
  rhNodeArrayCount :: nat
  rhPosOfLastForwardLinkField :: int
  rhNodeReader :: nodeReader

definition isEnd :: "readingHelper \<Rightarrow> bool" where
  \<comment> \<open>Modelled from the spec: the helper is at its end when it has no position.\<close>
  "isEnd st = (rhPos st = NOT_A_DICT_POS)"

definition isError :: "readingHelper \<Rightarrow> bool" where
  "isError st = rhIsError st"

definition getPrevTotalCodePointCount :: "readingHelper \<Rightarrow> nat" where
  "getPrevTotalCodePointCount st = rhPrevTotalCodePointCount st"

definition getTotalCodePointCount :: "readingHelper \<Rightarrow> nat" where
  \<comment> \<open>Modelled from the spec: section 4.3, \<^verbatim>\<open>matchedCount + nodeLen\<close>.\<close>
  "getTotalCodePointCount st = rhPrevTotalCodePointCount st + nrCodePointCount (rhNodeReader st)"

definition getMergedNodeCodePoints :: "readingHelper \<Rightarrow> int list" where
  "getMergedNodeCodePoints st = nrCodePoints (rhNodeReader st)"

definition isMatchedCodePoint :: "readingHelper \<Rightarrow> nat \<Rightarrow> int \<Rightarrow> bool" where
  \<comment> \<open>Modelled from the spec: section 4.3, compare a code point of the node's label.\<close>
  "isMatchedCodePoint st index codePoint =
     (index < length (getMergedNodeCodePoints st) \<and> getMergedNodeCodePoints st ! index = codePoint)"

definition getPosOfLastForwardLinkField :: "readingHelper \<Rightarrow> int" where
  "getPosOfLastForwardLinkField st = rhPosOfLastForwardLinkField st"

definition setError :: "readingHelper \<Rightarrow> readingHelper" where
  "setError st = st\<lparr> rhIsError := True, rhPos := NOT_A_DICT_POS \<rparr>"

text \<open>
  Entering the PtNodeArray at the helper's position: read its size; an empty array is
  left at once through its forward link.
\<close>

function nextNodeArray :: "trieEnv \<Rightarrow> dictBuffer \<Rightarrow> readingHelper \<Rightarrow> readingHelper" where
  "nextNodeArray env b st =
     (if rhPos st < 0 \<or> rhPos st \<ge> getTailPosition b then setError st
      else if rhTotalNodeCount st + fst (readPtNodeArraySize b (rhPos st)) > maxChildCount env
              \<or> rhNodeArrayCount st + 1 > maxNodeArrayCount env then setError st
      else if fst (readPtNodeArraySize b (rhPos st)) = 0 then
        (if readForwardLinkPosition b (snd (readPtNodeArraySize b (rhPos st))) \<noteq> NOT_A_DICT_POS
         then nextNodeArray env b
                (st\<lparr> rhPos := readForwardLinkPosition b (snd (readPtNodeArraySize b (rhPos st))),
                     rhNodeCount := 0,
                     rhNodeArrayCount := rhNodeArrayCount st + 1,
                     rhPosOfLastForwardLinkField := snd (readPtNodeArraySize b (rhPos st)) \<rparr>)
         else st\<lparr> rhPos := NOT_A_DICT_POS,
                  rhNodeCount := 0,
                  rhNodeArrayCount := rhNodeArrayCount st + 1,
                  rhPosOfLastForwardLinkField := snd (readPtNodeArraySize b (rhPos st)) \<rparr>)
      else st\<lparr> rhPos := snd (readPtNodeArraySize b (rhPos st)),
               rhNodeCount := fst (readPtNodeArraySize b (rhPos st)),
               rhTotalNodeCount := rhTotalNodeCount st + fst (readPtNodeArraySize b (rhPos st)),
               rhNodeArrayCount := rhNodeArrayCount st + 1 \<rparr>)"
  by pat_completeness auto
termination
  by (relation "measure (\<lambda>(env, b, st). maxNodeArrayCount env + 1 - rhNodeArrayCount st)") auto

declare nextNodeArray.simps [simp del]

definition followForwardLink :: "trieEnv \<Rightarrow> dictBuffer \<Rightarrow> readingHelper \<Rightarrow> readingHelper" where
  "followForwardLink env b st =
     (let forwardLinkPosition = readForwardLinkPosition b (rhPos st);
          st1 = st\<lparr> rhPosOfLastForwardLinkField := rhPos st \<rparr>
      in if forwardLinkPosition \<noteq> NOT_A_DICT_POS
         then nextNodeArray env b (st1\<lparr> rhPos := forwardLinkPosition \<rparr>)
         else st1\<lparr> rhPos := NOT_A_DICT_POS \<rparr>)"

definition fetchNodeInfo :: "trieEnv \<Rightarrow> dictBuffer \<Rightarrow> readingHelper \<Rightarrow> readingHelper" where
  "fetchNodeInfo env b st =
     (if isEnd st then st
      else st\<lparr> rhNodeReader := fetchNodeInfoFromBuffer env b (rhPos st) \<rparr>)"

definition emptyNodeReader :: nodeReader where
  "emptyNodeReader =
     \<lparr> nrHeadPos = NOT_A_DICT_POS, nrFlags = 0, nrParentPos = NOT_A_DICT_POS, nrCodePoints = [],
       nrProbability = NOT_A_PROBABILITY, nrProbabilityFieldPos = NOT_A_DICT_POS,
       nrChildrenPos = NOT_A_DICT_POS, nrChildrenPosFieldPos = NOT_A_DICT_POS,
       nrShortcutPos = NOT_A_DICT_POS, nrBigramsPos = NOT_A_DICT_POS,
       nrSiblingPos = NOT_A_DICT_POS \<rparr>"

text \<open>
  One step to the PtNode that follows in the array, or to the first PtNode of the array
  that the forward link leads to.
\<close>

definition stepToSiblingNode :: "trieEnv \<Rightarrow> dictBuffer \<Rightarrow> readingHelper \<Rightarrow> readingHelper" where
  "stepToSiblingNode env b st =
     (let st1 = st\<lparr> rhNodeCount := rhNodeCount st - 1,
                    rhPos := nrSiblingPos (rhNodeReader st) \<rparr>
      in fetchNodeInfo env b
           (if rhNodeCount st1 = 0 then followForwardLink env b st1 else st1))"

subsection \<open>Termination of the reading loops\<close>

text \<open>
  The loops of the source run until the helper is at its end. Each step to a sibling
  either uses up a node of the current array or enters a further array, and the number of
  arrays entered is bounded; each step to the children adds the node's code points to the
  count of matched code points.
\<close>

lemma nextNodeArray_progress:
  "rhPos (nextNodeArray env b st) \<noteq> NOT_A_DICT_POS \<Longrightarrow>
   rhNodeArrayCount st < rhNodeArrayCount (nextNodeArray env b st)
   \<and> rhNodeArrayCount (nextNodeArray env b st) \<le> maxNodeArrayCount env"
proof (induction env b st rule: nextNodeArray.induct)
  case (1 env b st)
  let ?size = "fst (readPtNodeArraySize b (rhPos st))"
  let ?p = "snd (readPtNodeArraySize b (rhPos st))"
  let ?link = "readForwardLinkPosition b ?p"
  let ?st' = "st\<lparr> rhPos := ?link, rhNodeCount := 0,
                     rhNodeArrayCount := rhNodeArrayCount st + 1,
                     rhPosOfLastForwardLinkField := ?p \<rparr>"
  consider (bad) "rhPos st < 0 \<or> rhPos st \<ge> getTailPosition b"
    | (limit) "\<not> (rhPos st < 0 \<or> rhPos st \<ge> getTailPosition b)"
        "rhTotalNodeCount st + ?size > maxChildCount env
          \<or> rhNodeArrayCount st + 1 > maxNodeArrayCount env"
    | (follow) "\<not> (rhPos st < 0 \<or> rhPos st \<ge> getTailPosition b)"
        "\<not> (rhTotalNodeCount st + ?size > maxChildCount env
          \<or> rhNodeArrayCount st + 1 > maxNodeArrayCount env)"
        "?size = 0" "?link \<noteq> NOT_A_DICT_POS"
    | (last) "\<not> (rhPos st < 0 \<or> rhPos st \<ge> getTailPosition b)"
        "\<not> (rhTotalNodeCount st + ?size > maxChildCount env
          \<or> rhNodeArrayCount st + 1 > maxNodeArrayCount env)"
        "?size = 0" "\<not> ?link \<noteq> NOT_A_DICT_POS"
    | (enter) "\<not> (rhPos st < 0 \<or> rhPos st \<ge> getTailPosition b)"
        "\<not> (rhTotalNodeCount st + ?size > maxChildCount env
          \<or> rhNodeArrayCount st + 1 > maxNodeArrayCount env)"
        "?size \<noteq> 0"
    by blast
  then show ?case
  proof cases
    case bad
    then have "nextNodeArray env b st = setError st" by (subst nextNodeArray.simps) simp
    with "1.prems" show ?thesis by (simp add: setError_def)
  next
    case limit
    then have "nextNodeArray env b st = setError st" by (subst nextNodeArray.simps) simp
    with "1.prems" show ?thesis by (simp add: setError_def)
  next
    case follow
    then have eq: "nextNodeArray env b st = nextNodeArray env b ?st'"
      by (subst nextNodeArray.simps) simp
    with "1.prems" have "rhPos (nextNodeArray env b ?st') \<noteq> NOT_A_DICT_POS" by simp
    from "1.IH"[OF follow this] show ?thesis by (simp add: eq)
  next
    case last
    then have "rhPos (nextNodeArray env b st) = NOT_A_DICT_POS"
      by (subst nextNodeArray.simps) simp
    with "1.prems" show ?thesis by simp
  next
    case enter
    then have "rhNodeArrayCount (nextNodeArray env b st) = rhNodeArrayCount st + 1"
      by (subst nextNodeArray.simps) simp
    with enter show ?thesis by simp
  qed
qed

lemma nextNodeArray_prevTotal [simp]:
  "rhPrevTotalCodePointCount (nextNodeArray env b st) = rhPrevTotalCodePointCount st"
proof (induction env b st rule: nextNodeArray.induct)
  case (1 env b st)
  show ?case
    using "1.IH" by (subst nextNodeArray.simps) (simp add: setError_def)
qed

lemma fetchNodeInfo_fields [simp]:
  "rhPos (fetchNodeInfo env b st) = rhPos st"
  "rhNodeCount (fetchNodeInfo env b st) = rhNodeCount st"
  "rhNodeArrayCount (fetchNodeInfo env b st) = rhNodeArrayCount st"
  "rhPrevTotalCodePointCount (fetchNodeInfo env b st) = rhPrevTotalCodePointCount st"
  by (simp_all add: fetchNodeInfo_def)

lemma stepToSiblingNode_progress:
  assumes "\<not> isEnd (stepToSiblingNode env b st)"
  shows "(rhNodeArrayCount st < rhNodeArrayCount (stepToSiblingNode env b st)
          \<and> rhNodeArrayCount (stepToSiblingNode env b st) \<le> maxNodeArrayCount env)
         \<or> (rhNodeArrayCount (stepToSiblingNode env b st) = rhNodeArrayCount st
             \<and> rhNodeCount (stepToSiblingNode env b st) < rhNodeCount st)"
  using assms
    nextNodeArray_progress[of env b
      "st\<lparr> rhNodeCount := rhNodeCount st - 1, rhPos := nrSiblingPos (rhNodeReader st),
           rhPosOfLastForwardLinkField := nrSiblingPos (rhNodeReader st),
           rhPos := readForwardLinkPosition b (nrSiblingPos (rhNodeReader st)) \<rparr>"]
  by (auto simp: stepToSiblingNode_def followForwardLink_def Let_def isEnd_def
      split: if_splits)

lemma stepToSiblingNode_prevTotal [simp]:
  "rhPrevTotalCodePointCount (stepToSiblingNode env b st) = rhPrevTotalCodePointCount st"
  by (simp add: stepToSiblingNode_def followForwardLink_def Let_def)

definition siblingMeasure :: "trieEnv \<Rightarrow> readingHelper \<Rightarrow> nat \<times> nat \<times> nat" where
  "siblingMeasure env st =
     (if isEnd st then 0 else 1, maxNodeArrayCount env + 1 - rhNodeArrayCount st, rhNodeCount st)"

lemma step_sibling_measure:
  "\<not> isEnd st \<Longrightarrow>
   (siblingMeasure env (stepToSiblingNode env b st), siblingMeasure env st)
     \<in> less_than <*lex*> less_than <*lex*> less_than"
  using stepToSiblingNode_progress[of env b st] by (auto simp: siblingMeasure_def)

definition descentMeasure :: "trieEnv \<Rightarrow> nat \<Rightarrow> readingHelper \<Rightarrow> nat \<times> nat \<times> nat \<times> nat" where
  "descentMeasure env len st =
     (if isEnd st then 0 else 1, len - rhPrevTotalCodePointCount st,
      maxNodeArrayCount env + 1 - rhNodeArrayCount st, rhNodeCount st)"

lemma step_descent_measure:
  "\<not> isEnd st \<Longrightarrow>
   (descentMeasure env len (stepToSiblingNode env b st), descentMeasure env len st)
     \<in> less_than <*lex*> less_than <*lex*> less_than <*lex*> less_than"
  using stepToSiblingNode_progress[of env b st] by (auto simp: descentMeasure_def)

subsection \<open>The walk of the reading helper\<close>

text \<open>
  Section 4.3 of the spec: the walk skips the PtNodes that are marked as deleted. The
  helper does so whenever it has fetched a PtNode: when it enters an array, when it steps
  to a sibling and when it descends to the children.
\<close>

function skipDeletedNodes :: "trieEnv \<Rightarrow> dictBuffer \<Rightarrow> readingHelper \<Rightarrow> readingHelper" where
  "skipDeletedNodes env b st =
     (if isEnd st then st
      else if nrIsDeleted (rhNodeReader st)
      then skipDeletedNodes env b (stepToSiblingNode env b st)
      else st)"
  by pat_completeness auto
termination
  by (relation "inv_image (less_than <*lex*> less_than <*lex*> less_than)
                  (\<lambda>(env, b, st). siblingMeasure env st)")
     (auto intro: step_sibling_measure simp del: in_lex_prod)

declare skipDeletedNodes.simps [simp del]

definition initWithNodeArrayPos :: "trieEnv \<Rightarrow> dictBuffer \<Rightarrow> int \<Rightarrow> readingHelper" where
  \<comment> \<open>Modelled from the spec: \<^verbatim>\<open>DynamicPatriciaTrieReadingHelper::initWithNodeArrayPos\<close> is
      missing. The helper enters the array and is at its first PtNode that is not deleted.\<close>
  "initWithNodeArrayPos env b nodeArrayPos =
     (let st0 = \<lparr> rhIsError = False, rhPos = nodeArrayPos, rhNodeCount = 0,
                  rhPrevTotalCodePointCount = 0, rhTotalNodeCount = 0, rhNodeArrayCount = 0,
                  rhPosOfLastForwardLinkField = NOT_A_DICT_POS,
                  rhNodeReader = emptyNodeReader \<rparr>
      in if nodeArrayPos = NOT_A_DICT_POS then st0
         else skipDeletedNodes env b (fetchNodeInfo env b (nextNodeArray env b st0)))"

definition readNextSiblingNode :: "trieEnv \<Rightarrow> dictBuffer \<Rightarrow> readingHelper \<Rightarrow> readingHelper" where
  \<comment> \<open>Modelled from the spec: \<^verbatim>\<open>DynamicPatriciaTrieReadingHelper::readNextSiblingNode\<close> is
      missing. Section 4.3: the walk goes to the next sibling, follows the forward link at
      the end of an array and skips the nodes marked as deleted.\<close>
  "readNextSiblingNode env b st = skipDeletedNodes env b (stepToSiblingNode env b st)"

definition readChildNode :: "trieEnv \<Rightarrow> dictBuffer \<Rightarrow> readingHelper \<Rightarrow> readingHelper" where
  \<comment> \<open>Modelled from the spec: \<^verbatim>\<open>DynamicPatriciaTrieReadingHelper::readChildNode\<close> is
      missing. Section 4.3: descend via \<^verbatim>\<open>childrenPos\<close>; the code points of the node are
      matched.\<close>
  "readChildNode env b st =
     (if nrHasChildren (rhNodeReader st) then
        skipDeletedNodes env b
          (fetchNodeInfo env b
             (nextNodeArray env b
                (st\<lparr> rhPrevTotalCodePointCount :=
                        rhPrevTotalCodePointCount st + nrCodePointCount (rhNodeReader st),
                      rhTotalNodeCount := 0,
                      rhNodeArrayCount := 0,
                      rhPos := nrChildrenPos (rhNodeReader st),
                      rhPosOfLastForwardLinkField := NOT_A_DICT_POS \<rparr>)))
      else st\<lparr> rhPos := NOT_A_DICT_POS \<rparr>)"

lemma skipDeletedNodes_prevTotal [simp]:
  "rhPrevTotalCodePointCount (skipDeletedNodes env b st) = rhPrevTotalCodePointCount st"
proof (induction env b st rule: skipDeletedNodes.induct)
  case (1 env b st)
  show ?case
    using "1.IH" by (subst skipDeletedNodes.simps) simp
qed

lemma skipDeletedNodes_sibling_measure:
  "siblingMeasure env (skipDeletedNodes env b st) = siblingMeasure env st
   \<or> (siblingMeasure env (skipDeletedNodes env b st), siblingMeasure env st)
        \<in> less_than <*lex*> less_than <*lex*> less_than"
proof (induction env b st rule: skipDeletedNodes.induct)
  case (1 env b st)
  show ?case
  proof (cases "\<not> isEnd st \<and> nrIsDeleted (rhNodeReader st)")
    case True
    then have eq: "skipDeletedNodes env b st = skipDeletedNodes env b (stepToSiblingNode env b st)"
      by (subst skipDeletedNodes.simps) simp
    from True have step: "(siblingMeasure env (stepToSiblingNode env b st), siblingMeasure env st)
        \<in> less_than <*lex*> less_than <*lex*> less_than"
      by (intro step_sibling_measure) simp
    have tr: "trans (less_than <*lex*> less_than <*lex*> (less_than :: (nat \<times> nat) set))"
      by (intro trans_lex_prod trans_less_than)
    from "1.IH" True
    have "siblingMeasure env (skipDeletedNodes env b (stepToSiblingNode env b st))
            = siblingMeasure env (stepToSiblingNode env b st)
          \<or> (siblingMeasure env (skipDeletedNodes env b (stepToSiblingNode env b st)),
              siblingMeasure env (stepToSiblingNode env b st))
               \<in> less_than <*lex*> less_than <*lex*> less_than"
      by simp
    then show ?thesis
      unfolding eq using step transD[OF tr _ step] by metis
  next
    case False
    then have "skipDeletedNodes env b st = st" by (subst skipDeletedNodes.simps) auto
    then show ?thesis by simp
  qed
qed

lemma skipDeletedNodes_descent_measure:
  "descentMeasure env len (skipDeletedNodes env b st) = descentMeasure env len st
   \<or> (descentMeasure env len (skipDeletedNodes env b st), descentMeasure env len st)
        \<in> less_than <*lex*> less_than <*lex*> less_than <*lex*> less_than"
proof (induction env b st rule: skipDeletedNodes.induct)
  case (1 env b st)
  show ?case
  proof (cases "\<not> isEnd st \<and> nrIsDeleted (rhNodeReader st)")
    case True
    then have eq: "skipDeletedNodes env b st = skipDeletedNodes env b (stepToSiblingNode env b st)"
      by (subst skipDeletedNodes.simps) simp
    from True have step: "(descentMeasure env len (stepToSiblingNode env b st),
                           descentMeasure env len st)
        \<in> less_than <*lex*> less_than <*lex*> less_than <*lex*> less_than"
      by (intro step_descent_measure) simp
    have tr: "trans (less_than <*lex*> less_than <*lex*> less_than
                       <*lex*> (less_than :: (nat \<times> nat) set))"
      by (intro trans_lex_prod trans_less_than)
    from "1.IH" True
    have "descentMeasure env len (skipDeletedNodes env b (stepToSiblingNode env b st))
            = descentMeasure env len (stepToSiblingNode env b st)
          \<or> (descentMeasure env len (skipDeletedNodes env b (stepToSiblingNode env b st)),
              descentMeasure env len (stepToSiblingNode env b st))
               \<in> less_than <*lex*> less_than <*lex*> less_than <*lex*> less_than"
      by simp
    then show ?thesis
      unfolding eq using step transD[OF tr _ step] by metis
  next
    case False
    then have "skipDeletedNodes env b st = st" by (subst skipDeletedNodes.simps) auto
    then show ?thesis by simp
  qed
qed

lemma readNextSiblingNode_prevTotal [simp]:
  "rhPrevTotalCodePointCount (readNextSiblingNode env b st) = rhPrevTotalCodePointCount st"
  by (simp add: readNextSiblingNode_def)

lemma readChildNode_prevTotal:
  "nrHasChildren (rhNodeReader st) \<Longrightarrow>
   rhPrevTotalCodePointCount (readChildNode env b st) = getTotalCodePointCount st"
  by (simp add: readChildNode_def getTotalCodePointCount_def)

lemma sibling_measure:
  "\<not> isEnd st \<Longrightarrow>
   (siblingMeasure env (readNextSiblingNode env b st), siblingMeasure env st)
     \<in> less_than <*lex*> less_than <*lex*> less_than"
proof -
  assume ne: "\<not> isEnd st"
  have tr: "trans (less_than <*lex*> less_than <*lex*> (less_than :: (nat \<times> nat) set))"
    by (intro trans_lex_prod trans_less_than)
  from step_sibling_measure[OF ne, of env b]
    skipDeletedNodes_sibling_measure[of env b "stepToSiblingNode env b st"]
  show ?thesis
    unfolding readNextSiblingNode_def using transD[OF tr] by metis
qed

lemma descent_measure_sibling:
  "\<not> isEnd st \<Longrightarrow>
   (descentMeasure env len (readNextSiblingNode env b st), descentMeasure env len st)
     \<in> less_than <*lex*> less_than <*lex*> less_than <*lex*> less_than"
proof -
  assume ne: "\<not> isEnd st"
  have tr: "trans (less_than <*lex*> less_than <*lex*> less_than
                     <*lex*> (less_than :: (nat \<times> nat) set))"
    by (intro trans_lex_prod trans_less_than)
  from step_descent_measure[OF ne, of env len b]
    skipDeletedNodes_descent_measure[of env len b "stepToSiblingNode env b st"]
  show ?thesis
    unfolding readNextSiblingNode_def using transD[OF tr] by metis
qed

lemma descent_measure_child:
  "\<not> isEnd st \<Longrightarrow> nrHasChildren (rhNodeReader st) \<Longrightarrow>
   rhPrevTotalCodePointCount st < getTotalCodePointCount st \<Longrightarrow>
   getTotalCodePointCount st \<le> len \<Longrightarrow>
   (descentMeasure env len (readChildNode env b st), descentMeasure env len st)
     \<in> less_than <*lex*> less_than <*lex*> less_than <*lex*> less_than"
  by (auto simp: descentMeasure_def readChildNode_prevTotal)

section \<open>\<^verbatim>\<open>DynamicPatriciaTrieWritingHelper\<close> (dynamic\_patricia\_trie\_writing\_helper.cpp)\<close>

text \<open>
  Every function returns its \<^verbatim>\<open>bool\<close> with the buffer as the call left it; a function
  with a \<^verbatim>\<open>writingPos\<close> out-parameter returns the position too.
\<close>

definition CHILDREN_POSITION_FIELD_SIZE :: int where
  "CHILDREN_POSITION_FIELD_SIZE = 3"

definition writePtNodeWithFullInfoToBuffer ::
  "trieEnv \<Rightarrow> dictBuffer \<Rightarrow> bool \<Rightarrow> bool \<Rightarrow> int \<Rightarrow> int list \<Rightarrow> int \<Rightarrow> int \<Rightarrow> int \<Rightarrow> int \<Rightarrow> int
     \<Rightarrow> int \<Rightarrow> bool \<times> dictBuffer \<times> int" where
  "writePtNodeWithFullInfoToBuffer env b isBlacklisted isNotAWord parentPos codePoints
     codePointCount probability childrenPos originalBigramListPos originalShortcutListPos
     writingPos =
     (let nodePos = writingPos in
      case writeFlagsAndAdvancePosition b 0 writingPos of
        None \<Rightarrow> (False, b, writingPos)
      | Some (b1, p1) \<Rightarrow>
      let parentOffset = (if parentPos \<noteq> NOT_A_DICT_POS then parentPos - nodePos
                          else NOT_A_DICT_POS) in
      case writeParentOffsetAndAdvancePosition b1 parentOffset p1 of
        None \<Rightarrow> (False, b1, p1)
      | Some (b2, p2) \<Rightarrow>
      case writeCodePointsAndAdvancePosition b2 codePoints codePointCount p2 of
        None \<Rightarrow> (False, b2, p2)
      | Some (b3, p3) \<Rightarrow>
      case (if probability \<noteq> NOT_A_PROBABILITY
            then writeProbabilityAndAdvancePosition b3 probability p3
            else Some (b3, p3)) of
        None \<Rightarrow> (False, b3, p3)
      | Some (b4, p4) \<Rightarrow>
      case writeChildrenPositionAndAdvancePosition b4 childrenPos p4 of
        None \<Rightarrow> (False, b4, p4)
      | Some (b5, p5) \<Rightarrow>
      let (ok6, b6, p6) =
            (if originalShortcutListPos \<noteq> NOT_A_DICT_POS
             then copyAllShortcutsAndReturnIfSucceededOrNot env b5 originalShortcutListPos p5
             else (True, b5, p5)) in
      if \<not> ok6 then (False, b6, p6)
      else
      let (ok7, b7, p7, bigramCount) =
            (if originalBigramListPos \<noteq> NOT_A_DICT_POS
             then copyAllBigrams env b6 originalBigramListPos p6
             else (True, b6, p6, 0)) in
      if \<not> ok7 then (False, b7, p7)
      else
      let nodeFlags = createAndGetFlags isBlacklisted isNotAWord
                        (probability \<noteq> NOT_A_PROBABILITY)
                        (originalShortcutListPos \<noteq> NOT_A_DICT_POS)
                        (bigramCount > 0) (codePointCount > 1) CHILDREN_POSITION_FIELD_SIZE in
      case writeFlagsAndAdvancePosition b7 nodeFlags nodePos of
        None \<Rightarrow> (False, b7, p7)
      | Some (b8, flagsEnd) \<Rightarrow> (True, b8, p7))"

definition writePtNodeToBuffer ::
  "trieEnv \<Rightarrow> dictBuffer \<Rightarrow> int \<Rightarrow> int list \<Rightarrow> int \<Rightarrow> int \<Rightarrow> int \<Rightarrow> bool \<times> dictBuffer \<times> int" where
  "writePtNodeToBuffer env b parentPos codePoints codePointCount probability writingPos =
     writePtNodeWithFullInfoToBuffer env b False False parentPos codePoints codePointCount
       probability NOT_A_DICT_POS NOT_A_DICT_POS NOT_A_DICT_POS writingPos"

definition writePtNodeToBufferByCopyingPtNodeInfo ::
  "trieEnv \<Rightarrow> dictBuffer \<Rightarrow> nodeReader \<Rightarrow> int \<Rightarrow> int list \<Rightarrow> int \<Rightarrow> int \<Rightarrow> int
     \<Rightarrow> bool \<times> dictBuffer \<times> int" where
  "writePtNodeToBufferByCopyingPtNodeInfo env b originalNode parentPos codePoints codePointCount
     probability writingPos =
     writePtNodeWithFullInfoToBuffer env b (nrIsBlacklisted originalNode)
       (nrIsNotAWord originalNode) parentPos codePoints codePointCount probability
       (nrChildrenPos originalNode) (nrBigramsPos originalNode) (nrShortcutPos originalNode)
       writingPos"

text \<open>
  The loop of \<^verbatim>\<open>markNodeAsMovedAndSetPosition\<close> over the children of the moved node: it
  writes the parent offset of each child.
\<close>

function updateChildrenParentPosition ::
  "trieEnv \<Rightarrow> int \<Rightarrow> dictBuffer \<Rightarrow> readingHelper \<Rightarrow> bool \<times> dictBuffer" where
  "updateChildrenParentPosition env movedPos b st =
     (if isEnd st then (True, b)
      else
        (let childPtNodeWrittenPos = nrHeadPos (rhNodeReader st);
             parentOffset = movedPos - childPtNodeWrittenPos;
             parentOffsetFieldPos = childPtNodeWrittenPos + 1
         in case writeParentOffsetAndAdvancePosition b parentOffset parentOffsetFieldPos of
              None \<Rightarrow> (False, b)
            | Some (b', fieldEnd) \<Rightarrow>
                updateChildrenParentPosition env movedPos b' (readNextSiblingNode env b' st)))"
  by pat_completeness auto
termination
  by (relation "inv_image (less_than <*lex*> less_than <*lex*> less_than)
                  (\<lambda>(env, movedPos, b, st). siblingMeasure env st)")
     (auto intro: sibling_measure simp del: in_lex_prod)

declare updateChildrenParentPosition.simps [simp del]

definition markNodeAsMovedAndSetPosition ::
  "trieEnv \<Rightarrow> dictBuffer \<Rightarrow> nodeReader \<Rightarrow> int \<Rightarrow> int \<Rightarrow> bool \<times> dictBuffer" where
  "markNodeAsMovedAndSetPosition env b originalNode movedPos bigramLinkedNodePos =
     (let originalFlags = fst (getFlagsAndAdvancePosition b (nrHeadPos originalNode));
          updatedFlags = updateAndGetFlags originalFlags True False
      in case writeFlagsAndAdvancePosition b updatedFlags (nrHeadPos originalNode) of
           None \<Rightarrow> (False, b)
         | Some (b1, writingPos) \<Rightarrow>
      let movedPosOffset = movedPos - nrHeadPos originalNode in
      case writeParentOffsetAndAdvancePosition b1 movedPosOffset writingPos of
        None \<Rightarrow> (False, b1)
      | Some (b2, writingPos2) \<Rightarrow>
      case writeChildrenPositionAndAdvancePosition b2 bigramLinkedNodePos
             (nrChildrenPosFieldPos originalNode) of
        None \<Rightarrow> (False, b2)
      | Some (b3, childrenPosFieldEnd) \<Rightarrow>
      if nrHasChildren originalNode
      then updateChildrenParentPosition env movedPos b3
             (initWithNodeArrayPos env b3 (nrChildrenPos originalNode))
      else (True, b3))"

definition createNewPtNodeArrayWithAChildPtNode ::
  "trieEnv \<Rightarrow> dictBuffer \<Rightarrow> int \<Rightarrow> int list \<Rightarrow> int \<Rightarrow> int \<Rightarrow> bool \<times> dictBuffer" where
  "createNewPtNodeArrayWithAChildPtNode env b parentPtNodePos nodeCodePoints nodeCodePointCount
     probability =
     (let writingPos = getTailPosition b in
      case writePtNodeArraySizeAndAdvancePosition b 1 writingPos of
        None \<Rightarrow> (False, b)
      | Some (b1, p1) \<Rightarrow>
      let (ok2, b2, p2) = writePtNodeToBuffer env b1 parentPtNodePos nodeCodePoints
                            nodeCodePointCount probability p1 in
      if \<not> ok2 then (False, b2)
      else
      case writeForwardLinkPositionAndAdvancePosition b2 NOT_A_DICT_POS p2 of
        None \<Rightarrow> (False, b2)
      | Some (b3, p3) \<Rightarrow> (True, b3))"

definition createAndInsertNodeIntoPtNodeArray ::
  "trieEnv \<Rightarrow> dictBuffer \<Rightarrow> int \<Rightarrow> int list \<Rightarrow> int \<Rightarrow> int \<Rightarrow> int \<Rightarrow> bool \<times> dictBuffer" where
  "createAndInsertNodeIntoPtNodeArray env b parentPos nodeCodePoints nodeCodePointCount
     probability forwardLinkFieldPos =
     (let newPtNodeArrayPos = getTailPosition b in
      case writeForwardLinkPositionAndAdvancePosition b newPtNodeArrayPos forwardLinkFieldPos of
        None \<Rightarrow> (False, b)
      | Some (b1, p1) \<Rightarrow>
          createNewPtNodeArrayWithAChildPtNode env b1 parentPos nodeCodePoints
            nodeCodePointCount probability)"

definition setPtNodeProbability ::
  "trieEnv \<Rightarrow> dictBuffer \<Rightarrow> nodeReader \<Rightarrow> int \<Rightarrow> int list \<Rightarrow> bool \<times> dictBuffer" where
  "setPtNodeProbability env b originalPtNode probability codePoints =
     (if nrIsTerminal originalPtNode then
        (case writeProbabilityAndAdvancePosition b probability
                (nrProbabilityFieldPos originalPtNode) of
           None \<Rightarrow> (False, b)
         | Some (b1, p1) \<Rightarrow> (True, b1))
      else
        (let movedPos = getTailPosition b;
             (ok1, b1) = markNodeAsMovedAndSetPosition env b originalPtNode movedPos movedPos
         in if \<not> ok1 then (False, b1)
            else
              (let (ok2, b2, p2) =
                     writePtNodeToBufferByCopyingPtNodeInfo env b1 originalPtNode
                       (nrParentPos originalPtNode) codePoints
                       (int (nrCodePointCount originalPtNode)) probability movedPos
               in if \<not> ok2 then (False, b2) else (True, b2))))"

definition createChildrenPtNodeArrayAndAChildPtNode ::
  "trieEnv \<Rightarrow> dictBuffer \<Rightarrow> nodeReader \<Rightarrow> int \<Rightarrow> int list \<Rightarrow> int \<Rightarrow> bool \<times> dictBuffer" where
  "createChildrenPtNodeArrayAndAChildPtNode env b parentNode probability codePoints
     codePointCount =
     (let newPtNodeArrayPos = getTailPosition b in
      case writeChildrenPositionAndAdvancePosition b newPtNodeArrayPos
             (nrChildrenPosFieldPos parentNode) of
        None \<Rightarrow> (False, b)
      | Some (b1, p1) \<Rightarrow>
          createNewPtNodeArrayWithAChildPtNode env b1 (nrHeadPos parentNode) codePoints
            codePointCount probability)"

definition reallocatePtNodeAndAddNewPtNodes ::
  "trieEnv \<Rightarrow> dictBuffer \<Rightarrow> nodeReader \<Rightarrow> int list \<Rightarrow> int \<Rightarrow> int \<Rightarrow> int list \<Rightarrow> int
     \<Rightarrow> bool \<times> dictBuffer" where
  "reallocatePtNodeAndAddNewPtNodes env b reallocatingPtNode reallocatingPtNodeCodePoints
     overlappingCodePointCount probabilityOfNewPtNode newNodeCodePoints newNodeCodePointCount =
     (let addsExtraChild = newNodeCodePointCount > overlappingCodePointCount;
          firstPartOfReallocatedPtNodePos = getTailPosition b;
          newProbability = (if addsExtraChild then NOT_A_PROBABILITY else probabilityOfNewPtNode);
          (ok1, b1, p1) = writePtNodeToBuffer env b (nrParentPos reallocatingPtNode)
                            reallocatingPtNodeCodePoints overlappingCodePointCount
                            newProbability firstPartOfReallocatedPtNodePos
      in if \<not> ok1 then (False, b1)
         else
      let actualChildrenPos = p1;
          newPtNodeCount = (if addsExtraChild then 2 else 1)
      in case writePtNodeArraySizeAndAdvancePosition b1 newPtNodeCount p1 of
           None \<Rightarrow> (False, b1)
         | Some (b2, p2) \<Rightarrow>
      let secondPartOfReallocatedPtNodePos = p2;
          (ok3, b3, p3) =
            writePtNodeToBufferByCopyingPtNodeInfo env b2 reallocatingPtNode
              firstPartOfReallocatedPtNodePos
              (drop (nat overlappingCodePointCount) reallocatingPtNodeCodePoints)
              (int (nrCodePointCount reallocatingPtNode) - overlappingCodePointCount)
              (nrProbability reallocatingPtNode) p2
      in if \<not> ok3 then (False, b3)
         else
      let (ok4, b4, p4) =
            (if addsExtraChild
             then writePtNodeToBuffer env b3 firstPartOfReallocatedPtNodePos
                    (drop (nat overlappingCodePointCount) newNodeCodePoints)
                    (newNodeCodePointCount - overlappingCodePointCount)
                    probabilityOfNewPtNode p3
             else (True, b3, p3))
      in if \<not> ok4 then (False, b4)
         else
      case writeForwardLinkPositionAndAdvancePosition b4 NOT_A_DICT_POS p4 of
        None \<Rightarrow> (False, b4)
      | Some (b5, p5) \<Rightarrow>
      let (ok6, b6) = markNodeAsMovedAndSetPosition env b5 reallocatingPtNode
                        firstPartOfReallocatedPtNodePos secondPartOfReallocatedPtNodePos
      in if \<not> ok6 then (False, b6)
         else
      let nodeReader = fetchNodeInfoFromBuffer env b6 firstPartOfReallocatedPtNodePos in
      case writeChildrenPositionAndAdvancePosition b6 actualChildrenPos
             (nrChildrenPosFieldPos nodeReader) of
        None \<Rightarrow> (False, b6)
      | Some (b7, p7) \<Rightarrow> (True, b7))"

text \<open>
  \<^verbatim>\<open>addBigramWords\<close> and \<^verbatim>\<open>removeBigramWords\<close> of the writing helper. The code points that
  \<^verbatim>\<open>fetchNodeInfoFromBufferAndGetNodeCodePoints\<close> stores are those of the node reader.
\<close>

definition helperAddBigramWords ::
  "trieEnv \<Rightarrow> dictBuffer \<Rightarrow> int \<Rightarrow> int \<Rightarrow> int \<Rightarrow> bool \<times> dictBuffer" where
  "helperAddBigramWords env b word0Pos word1Pos probability =
     (let nodeReader = fetchNodeInfoFromBuffer env b word0Pos;
          mMergedNodeCodePoints = nrCodePoints nodeReader;
          newNodePos = getTailPosition b;
          (ok1, b1) = markNodeAsMovedAndSetPosition env b nodeReader newNodePos newNodePos
      in if \<not> ok1 then (False, b1)
         else
      let (ok2, b2, writingPos) =
            writePtNodeToBufferByCopyingPtNodeInfo env b1 nodeReader (nrParentPos nodeReader)
              mMergedNodeCodePoints (int (nrCodePointCount nodeReader))
              (nrProbability nodeReader) newNodePos
      in if \<not> ok2 then (False, b2)
         else
      let nodeReader2 = fetchNodeInfoFromBuffer env b2 newNodePos in
      if nrBigramsPos nodeReader2 \<noteq> NOT_A_DICT_POS
      then addNewBigramEntryToBigramList env b2 word1Pos probability (nrBigramsPos nodeReader2)
      else
        (let (ok3, b3, writingPos3) = writeNewBigramEntry env b2 word1Pos probability writingPos
         in if \<not> ok3 then (False, b3)
            else
              (let updatedFlags =
                     createAndGetFlags (nrIsBlacklisted nodeReader2) (nrIsNotAWord nodeReader2)
                       (nrProbability nodeReader2 \<noteq> NOT_A_PROBABILITY)
                       (nrShortcutPos nodeReader2 \<noteq> NOT_A_DICT_POS) True
                       (nrCodePointCount nodeReader2 > 1) CHILDREN_POSITION_FIELD_SIZE
               in case writeFlagsAndAdvancePosition b3 updatedFlags newNodePos of
                    None \<Rightarrow> (False, b3)
                  | Some (b4, flagsEnd) \<Rightarrow> (True, b4))))"

definition helperRemoveBigramWords ::
  "trieEnv \<Rightarrow> dictBuffer \<Rightarrow> int \<Rightarrow> int \<Rightarrow> bool \<times> dictBuffer" where
  "helperRemoveBigramWords env b word0Pos word1Pos =
     (let nodeReader = fetchNodeInfoFromBuffer env b word0Pos in
      if nrBigramsPos nodeReader = NOT_A_DICT_POS then (False, b)
      else removeBigram env b (nrBigramsPos nodeReader) word1Pos)"

text \<open>
  \<^verbatim>\<open>addUnigramWord\<close> of the writing helper. The word is the array \<^verbatim>\<open>wordCodePoints\<close> of
  \<^verbatim>\<open>codePointCount\<close> cells; reading it past its end is undefined behaviour and is \<open>None\<close>.
  The inner loop over \<open>j\<close> returns at the first \<open>j\<close> where the word ends or differs.
\<close>

definition firstDifference :: "readingHelper \<Rightarrow> int list \<Rightarrow> nat \<Rightarrow> nat option" where
  "firstDifference st wordCodePoints matchedCodePointCount =
     List.find (\<lambda>j. matchedCodePointCount + j \<ge> length wordCodePoints
                     \<or> \<not> isMatchedCodePoint st j (wordCodePoints ! (matchedCodePointCount + j)))
       [1..<nrCodePointCount (rhNodeReader st)]"

function addUnigramWordLoop ::
  "trieEnv \<Rightarrow> int list \<Rightarrow> int \<Rightarrow> dictBuffer \<Rightarrow> int \<Rightarrow> readingHelper
     \<Rightarrow> (bool \<times> dictBuffer) option" where
  "addUnigramWordLoop env wordCodePoints probability b parentPos st =
     (if isEnd st then
        (if isError st then Some (False, b)
         else Some (createAndInsertNodeIntoPtNodeArray env b parentPos
                      (drop (getPrevTotalCodePointCount st) wordCodePoints)
                      (int (length wordCodePoints) - int (getPrevTotalCodePointCount st))
                      probability (getPosOfLastForwardLinkField st)))
      else if getPrevTotalCodePointCount st \<ge> length wordCodePoints then None
      else if \<not> isMatchedCodePoint st 0 (wordCodePoints ! getPrevTotalCodePointCount st)
      then addUnigramWordLoop env wordCodePoints probability b parentPos
             (readNextSiblingNode env b st)
      else
        (case firstDifference st wordCodePoints (getPrevTotalCodePointCount st) of
           Some j \<Rightarrow>
             Some (reallocatePtNodeAndAddNewPtNodes env b (rhNodeReader st)
                     (getMergedNodeCodePoints st) (int j) probability
                     (drop (getPrevTotalCodePointCount st) wordCodePoints)
                     (int (length wordCodePoints) - int (getPrevTotalCodePointCount st)))
         | None \<Rightarrow>
             if length wordCodePoints = getTotalCodePointCount st
             then Some (setPtNodeProbability env b (rhNodeReader st) probability
                          (getMergedNodeCodePoints st))
             else if \<not> nrHasChildren (rhNodeReader st)
             then Some (createChildrenPtNodeArrayAndAChildPtNode env b (rhNodeReader st)
                          probability
                          (drop (getTotalCodePointCount st) wordCodePoints)
                          (int (length wordCodePoints) - int (getTotalCodePointCount st)))
             else addUnigramWordLoop env wordCodePoints probability b
                    (nrHeadPos (rhNodeReader st)) (readChildNode env b st)))"
  by pat_completeness auto
termination
proof (relation "inv_image (less_than <*lex*> less_than <*lex*> less_than <*lex*> less_than)
                  (\<lambda>(env, w, p, b, parentPos, st). descentMeasure env (length w) st)",
       goal_cases)
  case 1
  show ?case by (intro wf_inv_image wf_lex_prod wf_less_than)
next
  case (2 env wordCodePoints probability b parentPos st)
  then show ?case using descent_measure_sibling[of st env "length wordCodePoints" b] by simp
next
  case (3 env wordCodePoints probability b parentPos st)
  let ?m = "getPrevTotalCodePointCount st"
  let ?n = "nrCodePointCount (rhNodeReader st)"
  from 3 have m: "?m < length wordCodePoints" by simp
  from 3 have "isMatchedCodePoint st 0 (wordCodePoints ! ?m)" by simp
  then have n: "0 < ?n"
    by (simp add: isMatchedCodePoint_def getMergedNodeCodePoints_def nrCodePointCount_def)
  have le: "getTotalCodePointCount st \<le> length wordCodePoints"
  proof (cases "?n = 1")
    case True
    with m show ?thesis
      by (simp add: getTotalCodePointCount_def getPrevTotalCodePointCount_def)
  next
    case False
    with n have "?n - 1 \<in> set [1..<?n]" by simp
    with 3(4) have "\<not> ?m + (?n - 1) \<ge> length wordCodePoints"
      unfolding firstDifference_def find_None_iff by blast
    with n show ?thesis
      by (simp add: getTotalCodePointCount_def getPrevTotalCodePointCount_def)
  qed
  have lt: "rhPrevTotalCodePointCount st < getTotalCodePointCount st"
    using n by (simp add: getTotalCodePointCount_def)
  from 3 have "\<not> isEnd st" "nrHasChildren (rhNodeReader st)" by simp_all
  from descent_measure_child[OF this lt le] show ?case by simp
qed

declare addUnigramWordLoop.simps [simp del]

definition helperAddUnigramWord ::
  "trieEnv \<Rightarrow> dictBuffer \<Rightarrow> readingHelper \<Rightarrow> int list \<Rightarrow> int \<Rightarrow> (bool \<times> dictBuffer) option" where
  "helperAddUnigramWord env b readingHelper wordCodePoints probability =
     addUnigramWordLoop env wordCodePoints probability b NOT_A_DICT_POS readingHelper"

section \<open>\<^verbatim>\<open>DynamicPatriciaTriePolicy\<close> (dynamic\_patricia\_trie\_policy.cpp)\<close>

text \<open>
  The state of the policy: whether the buffer is updatable, the root position (the size of
  the header) and the buffer.
\<close>

record dynamicPatriciaTriePolicy =
  mIsUpdatable :: bool
  mRootPosition :: int
  mBufferWithExtendableBuffer :: dictBuffer

text \<open>
  \<^verbatim>\<open>DicNodeVector\<close> is not among the sources. A call of \<^verbatim>\<open>pushLeavingChild\<close> appends a child
  made of the arguments of the call; the record holds them, the parent aside.
\<close>

record leavingChild =
  lcPos :: int
  lcChildrenPos :: int
  lcProbability :: int
  lcIsTerminal :: bool
  lcHasChildren :: bool
  lcIsBlacklistedOrNotAWord :: bool
  lcCodePointCount :: nat
  lcCodePoints :: "int list"

definition pushLeavingChild :: "readingHelper \<Rightarrow> leavingChild" where
  "pushLeavingChild st =
     (let nodeReader = rhNodeReader st in
      \<lparr> lcPos = nrHeadPos nodeReader,
        lcChildrenPos = nrChildrenPos nodeReader,
        lcProbability = nrProbability nodeReader,
        lcIsTerminal = (nrIsTerminal nodeReader \<and> \<not> nrIsDeleted nodeReader),
        lcHasChildren = nrHasChildren nodeReader,
        lcIsBlacklistedOrNotAWord = (nrIsBlacklisted nodeReader \<or> nrIsNotAWord nodeReader),
        lcCodePointCount = nrCodePointCount nodeReader,
        lcCodePoints = getMergedNodeCodePoints st \<rparr>)"

function childNodesLoop :: "trieEnv \<Rightarrow> dictBuffer \<Rightarrow> readingHelper \<Rightarrow> leavingChild list" where
  "childNodesLoop env b st =
     (if isEnd st then []
      else pushLeavingChild st # childNodesLoop env b (readNextSiblingNode env b st))"
  by pat_completeness auto
termination
  by (relation "inv_image (less_than <*lex*> less_than <*lex*> less_than)
                  (\<lambda>(env, b, st). siblingMeasure env st)")
     (auto intro: sibling_measure simp del: in_lex_prod)

declare childNodesLoop.simps [simp del]

definition createAndGetAllChildNodes ::
  "trieEnv \<Rightarrow> dynamicPatriciaTriePolicy \<Rightarrow> DicNode \<Rightarrow> leavingChild list" where
  "createAndGetAllChildNodes env pol dicNode =
     (if \<not> dicNodeHasChildren dicNode then []
      else childNodesLoop env (mBufferWithExtendableBuffer pol)
             (initWithNodeArrayPos env (mBufferWithExtendableBuffer pol)
                (dicNodeChildrenPos dicNode)))"

text \<open>
  \<^verbatim>\<open>getTerminalNodePositionOfWord\<close>. The search word is an array of \<^verbatim>\<open>length\<close> cells;
  reading \<^verbatim>\<open>inWord\<close> or the search word past the end is undefined behaviour and is \<open>None\<close>.
\<close>

function searchLoop :: "trieEnv \<Rightarrow> dictBuffer \<Rightarrow> int list \<Rightarrow> readingHelper \<Rightarrow> int option" where
  "searchLoop env b searchCodePoints st =
     (if isEnd st then Some NOT_A_VALID_WORD_POS
      else if getTotalCodePointCount st > length searchCodePoints
      then searchLoop env b searchCodePoints (readNextSiblingNode env b st)
      else if getPrevTotalCodePointCount st \<ge> length searchCodePoints then None
      else if \<not> isMatchedCodePoint st 0 (searchCodePoints ! getPrevTotalCodePointCount st)
      then searchLoop env b searchCodePoints (readNextSiblingNode env b st)
      else if \<exists>j \<in> set [1..<nrCodePointCount (rhNodeReader st)].
                \<not> isMatchedCodePoint st j (searchCodePoints ! (getPrevTotalCodePointCount st + j))
      then Some NOT_A_VALID_WORD_POS
      else if length searchCodePoints = getTotalCodePointCount st
      then Some (nrHeadPos (rhNodeReader st))
      else if \<not> nrHasChildren (rhNodeReader st) then Some NOT_A_VALID_WORD_POS
      else searchLoop env b searchCodePoints (readChildNode env b st))"
  by pat_completeness auto
termination
proof (relation "inv_image (less_than <*lex*> less_than <*lex*> less_than <*lex*> less_than)
                  (\<lambda>(env, b, w, st). descentMeasure env (length w) st)",
       goal_cases)
  case 1
  show ?case by (intro wf_inv_image wf_lex_prod wf_less_than)
next
  case (2 env b w st)
  then show ?case using descent_measure_sibling[of st env "length w" b] by simp
next
  case (3 env b w st)
  then show ?case using descent_measure_sibling[of st env "length w" b] by simp
next
  case (4 env b w st)
  from 4 have "isMatchedCodePoint st 0 (w ! getPrevTotalCodePointCount st)" by simp
  then have "0 < nrCodePointCount (rhNodeReader st)"
    by (simp add: isMatchedCodePoint_def getMergedNodeCodePoints_def nrCodePointCount_def)
  then have lt: "rhPrevTotalCodePointCount st < getTotalCodePointCount st"
    by (simp add: getTotalCodePointCount_def)
  from 4 have "\<not> isEnd st" "nrHasChildren (rhNodeReader st)"
    "getTotalCodePointCount st \<le> length w" by simp_all
  from descent_measure_child[OF this(1,2) lt this(3)] show ?case by simp
qed

declare searchLoop.simps [simp del]

definition getTerminalNodePositionOfWord ::
  "trieEnv \<Rightarrow> dynamicPatriciaTriePolicy \<Rightarrow> int list \<Rightarrow> nat \<Rightarrow> bool \<Rightarrow> int option" where
  "getTerminalNodePositionOfWord env pol inWord len forceLowerCaseSearch =
     (if len > length inWord then None
      else
        (let searchCodePoints =
               map (\<lambda>c. if forceLowerCaseSearch then toLowerCase env c else c) (take len inWord)
         in searchLoop env (mBufferWithExtendableBuffer pol) searchCodePoints
              (initWithNodeArrayPos env (mBufferWithExtendableBuffer pol) (mRootPosition pol))))"

definition getUnigramProbabilityOfPtNode ::
  "trieEnv \<Rightarrow> dynamicPatriciaTriePolicy \<Rightarrow> int \<Rightarrow> int" where
  "getUnigramProbabilityOfPtNode env pol nodePos =
     (if nodePos = NOT_A_VALID_WORD_POS then NOT_A_PROBABILITY
      else
        (let nodeReader = fetchNodeInfoFromBuffer env (mBufferWithExtendableBuffer pol) nodePos
         in if nrIsDeleted nodeReader \<or> nrIsBlacklisted nodeReader \<or> nrIsNotAWord nodeReader
            then NOT_A_PROBABILITY
            else getProbability (nrProbability nodeReader) NOT_A_PROBABILITY))"

text \<open>
  The three mutations. Each returns its \<^verbatim>\<open>bool\<close> and the buffer as the call left it;
  \<open>None\<close> is undefined behaviour of a lookup.
\<close>

definition addUnigramWord ::
  "trieEnv \<Rightarrow> dynamicPatriciaTriePolicy \<Rightarrow> int list \<Rightarrow> nat \<Rightarrow> int \<Rightarrow> (bool \<times> dictBuffer) option" where
  "addUnigramWord env pol word len probability =
     (if \<not> mIsUpdatable pol then Some (False, mBufferWithExtendableBuffer pol)
      else if len > length word then None
      else helperAddUnigramWord env (mBufferWithExtendableBuffer pol)
             (initWithNodeArrayPos env (mBufferWithExtendableBuffer pol) (mRootPosition pol))
             (take len word) probability)"

definition addBigramWords ::
  "trieEnv \<Rightarrow> dynamicPatriciaTriePolicy \<Rightarrow> int list \<Rightarrow> nat \<Rightarrow> int list \<Rightarrow> nat \<Rightarrow> int
     \<Rightarrow> (bool \<times> dictBuffer) option" where
  "addBigramWords env pol word0 length0 word1 length1 probability =
     (if \<not> mIsUpdatable pol then Some (False, mBufferWithExtendableBuffer pol)
      else
        (case getTerminalNodePositionOfWord env pol word0 length0 False of
           None \<Rightarrow> None
         | Some word0Pos \<Rightarrow>
             if word0Pos = NOT_A_VALID_WORD_POS then Some (False, mBufferWithExtendableBuffer pol)
             else
               (case getTerminalNodePositionOfWord env pol word1 length1 False of
                  None \<Rightarrow> None
                | Some word1Pos \<Rightarrow>
                    if word1Pos = NOT_A_VALID_WORD_POS
                    then Some (False, mBufferWithExtendableBuffer pol)
                    else Some (helperAddBigramWords env (mBufferWithExtendableBuffer pol)
                                 word0Pos word1Pos probability))))"

definition removeBigramWords ::
  "trieEnv \<Rightarrow> dynamicPatriciaTriePolicy \<Rightarrow> int list \<Rightarrow> nat \<Rightarrow> int list \<Rightarrow> nat
     \<Rightarrow> (bool \<times> dictBuffer) option" where
  "removeBigramWords env pol word0 length0 word1 length1 =
     (if \<not> mIsUpdatable pol then Some (False, mBufferWithExtendableBuffer pol)
      else
        (case getTerminalNodePositionOfWord env pol word0 length0 False of
           None \<Rightarrow> None
         | Some word0Pos \<Rightarrow>
             if word0Pos = NOT_A_VALID_WORD_POS then Some (False, mBufferWithExtendableBuffer pol)
             else
               (case getTerminalNodePositionOfWord env pol word1 length1 False of
                  None \<Rightarrow> None
                | Some word1Pos \<Rightarrow>
                    if word1Pos = NOT_A_VALID_WORD_POS
                    then Some (False, mBufferWithExtendableBuffer pol)
                    else Some (helperRemoveBigramWords env (mBufferWithExtendableBuffer pol)
                                 word0Pos word1Pos))))"

subsection \<open>The children of a node, in the words of the spec\<close>

text \<open>
  Section 4.3 of the spec: walk the child array, following the forward link chain; skip
  the nodes marked as deleted; for a moved node report the moved-to node. \<open>reportedPtNode\<close>
  is the PtNode that stands for the PtNode at a position: the PtNode itself, or the PtNode at
  its moved position. \<open>nodesOfArray\<close> goes through the PtNodes of one array one after the
  other, \<open>endOfArray\<close> is the position after them, where the forward link is, and
  \<open>arrayChain\<close> follows the forward links. The walk gives up, as the reading helper does, at
  a bad offset, after \<open>arraysLeft\<close> arrays and when the arrays hold more than \<open>nodesLeft\<close>
  nodes.
\<close>

definition reportedPtNode :: "trieEnv \<Rightarrow> dictBuffer \<Rightarrow> int \<Rightarrow> nodeReader" where
  "reportedPtNode env b pos =
     (if flagsIsMoved (nrFlags (parsePtNode env b pos))
      then parsePtNode env b (nrParentPos (parsePtNode env b pos))
      else parsePtNode env b pos)"

fun nodesOfArray :: "trieEnv \<Rightarrow> dictBuffer \<Rightarrow> int \<Rightarrow> nat \<Rightarrow> nodeReader list" where
  "nodesOfArray env b pos 0 = []"
| "nodesOfArray env b pos (Suc n) =
     reportedPtNode env b pos # nodesOfArray env b (nrSiblingPos (parsePtNode env b pos)) n"

fun endOfArray :: "trieEnv \<Rightarrow> dictBuffer \<Rightarrow> int \<Rightarrow> nat \<Rightarrow> int" where
  "endOfArray env b pos 0 = pos"
| "endOfArray env b pos (Suc n) = endOfArray env b (nrSiblingPos (parsePtNode env b pos)) n"

fun arrayChain :: "trieEnv \<Rightarrow> dictBuffer \<Rightarrow> nat \<Rightarrow> nat \<Rightarrow> int \<Rightarrow> nodeReader list" where
  "arrayChain env b 0 nodesLeft pos = []"
| "arrayChain env b (Suc arraysLeft) nodesLeft pos =
     (if pos < 0 \<or> pos \<ge> getTailPosition b then []
      else if fst (readPtNodeArraySize b pos) > nodesLeft then []
      else nodesOfArray env b (snd (readPtNodeArraySize b pos)) (fst (readPtNodeArraySize b pos))
           @ (if readForwardLinkPosition b
                   (endOfArray env b (snd (readPtNodeArraySize b pos))
                      (fst (readPtNodeArraySize b pos))) \<noteq> NOT_A_DICT_POS
              then arrayChain env b arraysLeft (nodesLeft - fst (readPtNodeArraySize b pos))
                     (readForwardLinkPosition b
                        (endOfArray env b (snd (readPtNodeArraySize b pos))
                           (fst (readPtNodeArraySize b pos))))
              else []))"

definition enumerateChildren :: "trieEnv \<Rightarrow> dictBuffer \<Rightarrow> int \<Rightarrow> nodeReader list" where
  "enumerateChildren env b pos =
     filter (\<lambda>n. \<not> nrIsDeleted n)
       (arrayChain env b (maxNodeArrayCount env) (maxChildCount env) pos)"

text \<open>What \<^verbatim>\<open>pushLeavingChild\<close> is given for a PtNode.\<close>

definition childOfPtNode :: "nodeReader \<Rightarrow> leavingChild" where
  "childOfPtNode nodeReader =
     \<lparr> lcPos = nrHeadPos nodeReader,
       lcChildrenPos = nrChildrenPos nodeReader,
       lcProbability = nrProbability nodeReader,
       lcIsTerminal = (nrIsTerminal nodeReader \<and> \<not> nrIsDeleted nodeReader),
       lcHasChildren = nrHasChildren nodeReader,
       lcIsBlacklistedOrNotAWord = (nrIsBlacklisted nodeReader \<or> nrIsNotAWord nodeReader),
       lcCodePointCount = nrCodePointCount nodeReader,
       lcCodePoints = nrCodePoints nodeReader \<rparr>"

text \<open>Skipping a list moves forward in the buffer.\<close>

definition skipsForward :: "trieEnv \<Rightarrow> bool" where
  "skipsForward env =
     (\<forall>b pos. pos \<le> skipAllShortcuts env b pos \<and> pos \<le> skipAllBigrams env b pos)"

text \<open>The PtNodes that the helper fetches on its way, the deleted ones among them.\<close>

function fetchedNodes :: "trieEnv \<Rightarrow> dictBuffer \<Rightarrow> readingHelper \<Rightarrow> nodeReader list" where
  "fetchedNodes env b st =
     (if isEnd st then []
      else rhNodeReader st # fetchedNodes env b (stepToSiblingNode env b st))"
  by pat_completeness auto
termination
  by (relation "inv_image (less_than <*lex*> less_than <*lex*> less_than)
                  (\<lambda>(env, b, st). siblingMeasure env st)")
     (auto intro: step_sibling_measure simp del: in_lex_prod)

declare fetchedNodes.simps [simp del]

section \<open>Moved PtNodes\<close>










section \<open>The first write of a mutation\<close>

text \<open>
  What the first write that a mutation attempts returns: the buffer after the write and the
  advanced position, or \<open>None\<close> when the write is refused or the mutation returns before it
  writes. \<^verbatim>\<open>markNodeAsMovedAndSetPosition\<close> writes the flags of the original PtNode first.
\<close>

definition firstWriteOfMarkNodeAsMoved :: "dictBuffer \<Rightarrow> nodeReader \<Rightarrow> (dictBuffer \<times> int) option" where
  "firstWriteOfMarkNodeAsMoved b originalNode =
     writeFlagsAndAdvancePosition b
       (updateAndGetFlags (fst (getFlagsAndAdvancePosition b (nrHeadPos originalNode))) True False)
       (nrHeadPos originalNode)"

text \<open>
  \<^verbatim>\<open>addUnigramWord\<close> walks as the writing helper does. At the end of the sibling chain
  \<^verbatim>\<open>createAndInsertNodeIntoPtNodeArray\<close> writes the forward link first;
  \<^verbatim>\<open>reallocatePtNodeAndAddNewPtNodes\<close> appends the flags of the first part;
  \<^verbatim>\<open>setPtNodeProbability\<close> writes the probability of a terminal PtNode and marks any other
  as moved; \<^verbatim>\<open>createChildrenPtNodeArrayAndAChildPtNode\<close> writes the children position of
  the parent.
\<close>

function firstWriteOfAddUnigramWordLoop ::
  "trieEnv \<Rightarrow> int list \<Rightarrow> int \<Rightarrow> dictBuffer \<Rightarrow> readingHelper \<Rightarrow> (dictBuffer \<times> int) option" where
  "firstWriteOfAddUnigramWordLoop env wordCodePoints probability b st =
     (if isEnd st then
        (if isError st then None
         else writeForwardLinkPositionAndAdvancePosition b (getTailPosition b)
                (getPosOfLastForwardLinkField st))
      else if getPrevTotalCodePointCount st \<ge> length wordCodePoints then None
      else if \<not> isMatchedCodePoint st 0 (wordCodePoints ! getPrevTotalCodePointCount st)
      then firstWriteOfAddUnigramWordLoop env wordCodePoints probability b
             (readNextSiblingNode env b st)
      else
        (case firstDifference st wordCodePoints (getPrevTotalCodePointCount st) of
           Some j \<Rightarrow> writeFlagsAndAdvancePosition b 0 (getTailPosition b)
         | None \<Rightarrow>
             if length wordCodePoints = getTotalCodePointCount st
             then (if nrIsTerminal (rhNodeReader st)
                   then writeProbabilityAndAdvancePosition b probability
                          (nrProbabilityFieldPos (rhNodeReader st))
                   else firstWriteOfMarkNodeAsMoved b (rhNodeReader st))
             else if \<not> nrHasChildren (rhNodeReader st)
             then writeChildrenPositionAndAdvancePosition b (getTailPosition b)
                    (nrChildrenPosFieldPos (rhNodeReader st))
             else firstWriteOfAddUnigramWordLoop env wordCodePoints probability b
                    (readChildNode env b st)))"
  by pat_completeness auto
termination
proof (relation "inv_image (less_than <*lex*> less_than <*lex*> less_than <*lex*> less_than)
                  (\<lambda>(env, w, p, b, st). descentMeasure env (length w) st)",
       goal_cases)
  case 1
  show ?case by (intro wf_inv_image wf_lex_prod wf_less_than)
next
  case (2 env wordCodePoints probability b st)
  then show ?case using descent_measure_sibling[of st env "length wordCodePoints" b] by simp
next
  case (3 env wordCodePoints probability b st)
  let ?m = "getPrevTotalCodePointCount st"
  let ?n = "nrCodePointCount (rhNodeReader st)"
  from 3 have m: "?m < length wordCodePoints" by simp
  from 3 have "isMatchedCodePoint st 0 (wordCodePoints ! ?m)" by simp
  then have n: "0 < ?n"
    by (simp add: isMatchedCodePoint_def getMergedNodeCodePoints_def nrCodePointCount_def)
  have le: "getTotalCodePointCount st \<le> length wordCodePoints"
  proof (cases "?n = 1")
    case True
    with m show ?thesis
      by (simp add: getTotalCodePointCount_def getPrevTotalCodePointCount_def)
  next
    case False
    with n have "?n - 1 \<in> set [1..<?n]" by simp
    with 3(4) have "\<not> ?m + (?n - 1) \<ge> length wordCodePoints"
      unfolding firstDifference_def find_None_iff by blast
    with n show ?thesis
      by (simp add: getTotalCodePointCount_def getPrevTotalCodePointCount_def)
  qed
  have lt: "rhPrevTotalCodePointCount st < getTotalCodePointCount st"
    using n by (simp add: getTotalCodePointCount_def)
  from 3 have "\<not> isEnd st" "nrHasChildren (rhNodeReader st)" by simp_all
  from descent_measure_child[OF this lt le] show ?case by simp
qed

declare firstWriteOfAddUnigramWordLoop.simps [simp del]

definition firstWriteOfAddUnigramWord ::
  "trieEnv \<Rightarrow> dynamicPatriciaTriePolicy \<Rightarrow> int list \<Rightarrow> nat \<Rightarrow> int \<Rightarrow> (dictBuffer \<times> int) option" where
  "firstWriteOfAddUnigramWord env pol word len probability =
     (if \<not> mIsUpdatable pol \<or> len > length word then None
      else firstWriteOfAddUnigramWordLoop env (take len word) probability
             (mBufferWithExtendableBuffer pol)
             (initWithNodeArrayPos env (mBufferWithExtendableBuffer pol) (mRootPosition pol)))"

text \<open>
  \<^verbatim>\<open>addBigramWords\<close> looks both words up and then marks the PtNode of the first word as
  moved.
\<close>

definition firstWriteOfAddBigramWords ::
  "trieEnv \<Rightarrow> dynamicPatriciaTriePolicy \<Rightarrow> int list \<Rightarrow> nat \<Rightarrow> int list \<Rightarrow> nat
     \<Rightarrow> (dictBuffer \<times> int) option" where
  "firstWriteOfAddBigramWords env pol word0 length0 word1 length1 =
     (if \<not> mIsUpdatable pol then None
      else
        (case getTerminalNodePositionOfWord env pol word0 length0 False of
           None \<Rightarrow> None
         | Some word0Pos \<Rightarrow>
             if word0Pos = NOT_A_VALID_WORD_POS then None
             else
               (case getTerminalNodePositionOfWord env pol word1 length1 False of
                  None \<Rightarrow> None
                | Some word1Pos \<Rightarrow>
                    if word1Pos = NOT_A_VALID_WORD_POS then None
                    else firstWriteOfMarkNodeAsMoved (mBufferWithExtendableBuffer pol)
                           (fetchNodeInfoFromBuffer env (mBufferWithExtendableBuffer pol)
                              word0Pos))))"

text \<open>
  \<^verbatim>\<open>removeBigramWords\<close> writes through the bigram list policy only. It returns before the
  policy is called when the dictionary is not updatable, when a word is not found and when
  the PtNode of the first word has no bigram list.
\<close>

definition removeBigramWordsReturnsEarly ::
  "trieEnv \<Rightarrow> dynamicPatriciaTriePolicy \<Rightarrow> int list \<Rightarrow> nat \<Rightarrow> int list \<Rightarrow> nat \<Rightarrow> bool" where
  "removeBigramWordsReturnsEarly env pol word0 length0 word1 length1 =
     (if \<not> mIsUpdatable pol then True
      else
        (case getTerminalNodePositionOfWord env pol word0 length0 False of
           None \<Rightarrow> False
         | Some word0Pos \<Rightarrow>
             if word0Pos = NOT_A_VALID_WORD_POS then True
             else
               (case getTerminalNodePositionOfWord env pol word1 length1 False of
                  None \<Rightarrow> False
                | Some word1Pos \<Rightarrow>
                    word1Pos = NOT_A_VALID_WORD_POS
                    \<or> nrBigramsPos (fetchNodeInfoFromBuffer env (mBufferWithExtendableBuffer pol)
                                      word0Pos) = NOT_A_DICT_POS)))"

section \<open>A small dictionary\<close>

text \<open>
  An environment for a dictionary whose nodes carry no bigram and no shortcut lists: there
  is nothing to skip or to copy, and a list entry cannot be written.
\<close>

definition listlessEnv :: trieEnv where
  "listlessEnv =
     \<lparr> skipAllShortcuts = (\<lambda>b pos. pos),
       skipAllBigrams = (\<lambda>b pos. pos),
       copyAllShortcutsAndReturnIfSucceededOrNot = (\<lambda>b fromPos toPos. (True, b, toPos)),
       copyAllBigrams = (\<lambda>b fromPos toPos. (True, b, toPos, 0)),
       writeNewBigramEntry = (\<lambda>b target probability pos. (False, b, pos)),
       addNewBigramEntryToBigramList = (\<lambda>b target probability pos. (False, b)),
       removeBigram = (\<lambda>b pos target. (False, b)),
       toLowerCase = (\<lambda>c. c),
       maxChildCount = 1000,
       maxNodeArrayCount = 1000 \<rparr>"

text \<open>
  An empty dictionary: a header of four bytes and an empty root PtNodeArray (size 0 and no
  forward link).
\<close>

definition emptyDictionary :: "nat \<Rightarrow> dynamicPatriciaTriePolicy" where
  "emptyDictionary cap =
     \<lparr> mIsUpdatable = True, mRootPosition = 4,
       mBufferWithExtendableBuffer = \<lparr> content = [1, 2, 3, 4, 0, 0, 0, 0], maxSize = cap \<rparr> \<rparr>"

text \<open>
  The dictionary that \<^verbatim>\<open>addUnigramWord\<close> builds from the empty one for the words \<open>a\<close>
  (probability 10, PtNode at 9) and \<open>b\<close> (probability 20, PtNode at 25), with a cap.
\<close>

definition twoWordBuffer :: "nat \<Rightarrow> dictBuffer" where
  "twoWordBuffer cap =
     \<lparr> content = [1, 2, 3, 4, 0, 8, 0, 0, 1, 208, 0, 0, 0, 1, 97, 0, 0, 10, 0, 0, 0,
                   24, 0, 0, 1, 208, 0, 0, 0, 1, 98, 0, 0, 20, 0, 0, 0, 0, 0, 0],
       maxSize = cap \<rparr>"

definition twoWordDictionary :: "nat \<Rightarrow> dynamicPatriciaTriePolicy" where
  "twoWordDictionary cap =
     \<lparr> mIsUpdatable = True, mRootPosition = 4,
       mBufferWithExtendableBuffer = twoWordBuffer cap \<rparr>"

text \<open>The same bytes after the PtNode of \<open>a\<close> has been marked as moved to position 40.\<close>

definition twoWordBufferMarked :: "nat \<Rightarrow> dictBuffer" where
  "twoWordBufferMarked cap =
     \<lparr> content = [1, 2, 3, 4, 0, 8, 0, 0, 1, 80, 31, 0, 0, 1, 97, 0, 0, 10, 40, 0, 0,
                   24, 0, 0, 1, 208, 0, 0, 0, 1, 98, 0, 0, 20, 0, 0, 0, 0, 0, 0],
       maxSize = cap \<rparr>"

text \<open>
  A dictionary with the words \<open>a\<close>, \<open>b\<close> and \<open>c\<close>, each in a PtNodeArray of its own (at 8,
  24 and 40) on the forward link chain of the empty root array. The PtNode of \<open>a\<close> (at 9) is
  marked as moved to its copy at 56, which has the probability 15; the PtNode of \<open>b\<close> (at
  25) is marked as deleted. The root \<^verbatim>\<open>DicNode\<close> has the root PtNodeArray as its children.
\<close>

definition mixedDictionary :: dynamicPatriciaTriePolicy where
  "mixedDictionary =
     \<lparr> mIsUpdatable = True, mRootPosition = 4,
       mBufferWithExtendableBuffer =
         \<lparr> content = [1, 2, 3, 4, 0, 8, 0, 0,
                       1, 80, 47, 0, 0, 1, 97, 0, 0, 10, 56, 0, 0, 24, 0, 0,
                       1, 144, 0, 0, 0, 1, 98, 0, 0, 20, 0, 0, 0, 40, 0, 0,
                       1, 208, 0, 0, 0, 1, 99, 0, 0, 30, 0, 0, 0, 0, 0, 0,
                       208, 0, 0, 0, 1, 97, 0, 0, 15, 0, 0, 0],
           maxSize = 1000 \<rparr> \<rparr>"

definition rootDicNode :: DicNode where
  "rootDicNode = \<lparr> hasMultipleWords = False, isValidMultipleWordSuggestion = False,
                   unigramProbabilityOf = NOT_A_PROBABILITY, ptNodePos = NOT_A_DICT_POS,
                   prevWordTerminalPtNodePos = NOT_A_DICT_POS,
                   dicNodeHasChildren = True, dicNodeChildrenPos = 4 \<rparr>"


text \<open>
  The dictionary that \<^verbatim>\<open>addUnigramWord\<close> builds from the empty one for the word \<open>abcde\<close>
  (probability 10, PtNode at 9), and the buffer after the word \<open>abcxy\<close> (probability 20) has
  been added to it: the PtNode at 9 is split into \<open>abc\<close> (at 36) and \<open>de\<close> (at 54), and \<open>xy\<close>
  is at 69.
\<close>

definition longWordBuffer :: "nat \<Rightarrow> dictBuffer" where
  "longWordBuffer cap =
     \<lparr> content = [1, 2, 3, 4, 0, 8, 0, 0, 1, 240, 0, 0, 0, 5, 97, 0, 0, 98, 0, 0, 99, 0, 0,
                   100, 0, 0, 101, 0, 0, 10, 0, 0, 0, 0, 0, 0],
       maxSize = cap \<rparr>"

definition longWordDictionary :: "nat \<Rightarrow> dynamicPatriciaTriePolicy" where
  "longWordDictionary cap =
     \<lparr> mIsUpdatable = True, mRootPosition = 4,
       mBufferWithExtendableBuffer = longWordBuffer cap \<rparr>"

definition splitWordBuffer :: "nat \<Rightarrow> dictBuffer" where
  "splitWordBuffer cap =
     \<lparr> content = [1, 2, 3, 4, 0, 8, 0, 0, 1, 112, 27, 0, 0, 5, 97, 0, 0, 98, 0, 0, 99, 0, 0,
                   100, 0, 0, 101, 0, 0, 10, 54, 0, 0, 0, 0, 0,
                   224, 0, 0, 0, 3, 97, 0, 0, 98, 0, 0, 99, 0, 0, 53, 0, 0,
                   2, 240, 238, 255, 255, 2, 100, 0, 0, 101, 0, 0, 10, 0, 0, 0,
                   240, 223, 255, 255, 2, 120, 0, 0, 121, 0, 0, 20, 0, 0, 0, 0, 0, 0],
       maxSize = cap \<rparr>"

definition splitWordDictionary :: "nat \<Rightarrow> dynamicPatriciaTriePolicy" where
  "splitWordDictionary cap =
     \<lparr> mIsUpdatable = True, mRootPosition = 4,
       mBufferWithExtendableBuffer = splitWordBuffer cap \<rparr>"




section \<open>Properties of the probability functions\<close>

lemma round_sixteenths: "round (of_int n / 16 :: rat) = (n + 8) div 16"
proof -
  have "(of_int n / 16 + 1 / 2 :: rat) = of_int (n + 8) / of_int 16" by simp
  then show ?thesis unfolding round_def by (simp only: floor_divide_of_int_eq)
qed

text \<open>The rounded value in integer arithmetic, for evaluation.\<close>

lemma computeProbabilityForBigram_div:
  assumes "uni \<noteq> NOT_A_PROBABILITY" and "bi \<noteq> NOT_A_PROBABILITY"
  shows "computeProbabilityForBigram uni bi
           = (16 * uni + (MAX_PROBABILITY - uni) * (bi + 1) + 8) div 16"
proof -
  have "(of_int uni + of_int (MAX_PROBABILITY - uni) * bigramWeight bi :: rat)
        = of_int (16 * uni + (MAX_PROBABILITY - uni) * (bi + 1)) / 16"
    by (simp add: bigramWeight_def field_simps)
  with assms show ?thesis
    by (simp only: computeProbabilityForBigram_def round_sixteenths if_False simp_thms)
qed

text \<open>
  Claim C5. \<open>getProbability uni bi\<close> is \<open>NOT_A_PROBABILITY\<close> when \<open>uni\<close> is
  \<open>NOT_A_PROBABILITY\<close>; otherwise it is \<open>max (uni - 8) 0\<close> when \<open>bi\<close> is
  \<open>NOT_A_PROBABILITY\<close>; otherwise it is
  \<open>uni + (MAX_PROBABILITY - uni) * (bi + 1) / 16\<close> rounded to the nearest integer.
\<close>

theorem getProbability_cases:
  "getProbability uni bi =
     (if uni = NOT_A_PROBABILITY then NOT_A_PROBABILITY
      else if bi = NOT_A_PROBABILITY then max (uni - 8) 0
      else round (of_int uni + of_int (MAX_PROBABILITY - uni) * (of_int (bi + 1) / 16) :: rat))"
  by (simp add: getProbability_def backoff_def computeProbabilityForBigram_def bigramWeight_def)

theorem getProbability_cases_witness:
  "getProbability NOT_A_PROBABILITY 9 = NOT_A_PROBABILITY
   \<and> getProbability 100 NOT_A_PROBABILITY = 92
   \<and> getProbability 5 NOT_A_PROBABILITY = 0
   \<and> getProbability 100 9 = 197"
  using getProbability_cases [of NOT_A_PROBABILITY 9]
    getProbability_cases [of 100 NOT_A_PROBABILITY]
    getProbability_cases [of 5 NOT_A_PROBABILITY]
    getProbability_cases [of 100 9] round_sixteenths [of 3150]
  by (simp add: NOT_A_PROBABILITY_def MAX_PROBABILITY_def)

section \<open>Properties of \<^verbatim>\<open>MultiBigramMap\<close>\<close>

lemma bloomIndex_less: "bloomIndex p < BLOOM_FILTER_BITS"
  by (simp add: bloomIndex_def BLOOM_FILTER_BITS_def)

lemma length_setInFilter [simp]: "length (setInFilter f p) = length f"
  by (simp add: setInFilter_def)

lemma isInFilter_setInFilter:
  "length f = BLOOM_FILTER_BITS \<Longrightarrow> isInFilter (setInFilter f p) q = (isInFilter f q \<or> bloomIndex q = bloomIndex p)"
  using bloomIndex_less[of p] bloomIndex_less[of q]
  by (auto simp: isInFilter_def setInFilter_def nth_list_update)

lemma foldl_initStep_length:
  "length (mBloomFilter (foldl initStep m es)) = length (mBloomFilter m)"
  by (induction es arbitrary: m) (simp_all add: initStep_def)

lemma foldl_initStep_filter:
  "length (mBloomFilter m) = BLOOM_FILTER_BITS \<Longrightarrow>
   isInFilter (mBloomFilter m) q \<or> q \<in> fst ` set es \<Longrightarrow>
   isInFilter (mBloomFilter (foldl initStep m es)) q"
proof (induction es arbitrary: m)
  case Nil then show ?case by simp
next
  case (Cons e es)
  have l: "length (mBloomFilter (initStep m e)) = BLOOM_FILTER_BITS"
    using Cons.prems(1) by (simp add: initStep_def)
  have "isInFilter (mBloomFilter (initStep m e)) q \<or> q \<in> fst ` set es"
    using Cons.prems by (auto simp: initStep_def isInFilter_setInFilter)
  from Cons.IH[OF l this] show ?case by simp
qed

lemma foldl_initStep_map:
  "mBigramMap (foldl initStep m es) q =
     (case map_of (rev es) q of None \<Rightarrow> mBigramMap m q | Some b \<Rightarrow> Some b)"
proof (induction es arbitrary: m)
  case Nil then show ?case by simp
next
  case (Cons e es)
  show ?case
    by (cases e) (simp add: Cons.IH, auto simp: initStep_def map_add_def split: option.splits)
qed

lemma scanBigrams_map_of:
  "scanBigrams es q uni =
     (case map_of es q of None \<Rightarrow> backoff uni | Some b \<Rightarrow> computeProbabilityForBigram uni b)"
  by (induction es) auto

lemma singleValued_iff:
  "singleValued es = (\<forall>e \<in> set es. \<forall>e' \<in> set es. fst e = fst e' \<longrightarrow> snd e = snd e')"
  by (simp add: singleValued_def list_all_iff)

lemma singleValued_map_of_rev:
  assumes "singleValued es"
  shows "map_of (rev es) q = map_of es q"
proof (cases "map_of es q")
  case None
  then have "q \<notin> fst ` set es" by (simp add: map_of_eq_None_iff)
  then have "q \<notin> fst ` set (rev es)" by simp
  then have "map_of (rev es) q = None" by (rule iffD2[OF map_of_eq_None_iff])
  with None show ?thesis by simp
next
  case (Some b)
  then have m: "(q, b) \<in> set es" by (rule map_of_SomeD)
  then have "q \<in> fst ` set (rev es)" by force
  then obtain b' where b': "map_of (rev es) q = Some b'"
    by (metis map_of_eq_None_iff not_Some_eq)
  then have "(q, b') \<in> set es" using map_of_SomeD by fastforce
  with m assms have "b' = b" unfolding singleValued_iff by fastforce
  with b' Some show ?thesis by simp
qed

lemma init_lookup:
  "bigramMapGetBigramProbability (init dict k newBigramMap) q uni =
     (case map_of (rev (dict k)) q of None \<Rightarrow> backoff uni
      | Some b \<Rightarrow> computeProbabilityForBigram uni b)"
proof (cases "map_of (rev (dict k)) q")
  case None
  then show ?thesis
    by (simp add: bigramMapGetBigramProbability_def init_def foldl_initStep_map newBigramMap_def)
next
  case (Some b)
  then have "(q, b) \<in> set (dict k)" using map_of_SomeD by fastforce
  then have "q \<in> fst ` set (dict k)" by force
  then have "isInFilter (mBloomFilter (foldl initStep newBigramMap (dict k))) q"
    by (intro foldl_initStep_filter) (simp_all add: newBigramMap_def emptyBloomFilter_def)
  then show ?thesis using Some
    by (simp add: bigramMapGetBigramProbability_def init_def foldl_initStep_map)
qed

lemma map_of_putBigramMap: "map_of (putBigramMap maps k v) k' = (if k' = k then Some v else map_of maps k')"
  by (induction maps k v rule: putBigramMap.induct) auto

lemma cacheOf_map_of: "cacheOf dict maps \<Longrightarrow> map_of maps k = Some m \<Longrightarrow> m = init dict k newBigramMap"
  by (induction maps) (auto simp: cacheOf_def split: if_splits)

text \<open>
  Claim C3, as stated, at a bigram list that names the target 7 twice: the cache keeps the
  last probability stored for a target, the scan of the list returns at the first.
\<close>

theorem getBigramProbability_cache_counterexample:
  "fst (getBigramProbability 25 dupDict [] 1 7 100)
     \<noteq> readBigramProbabilityFromBinaryDictionary dupDict 1 7 100"
proof -
  have "fst (getBigramProbability 25 dupDict [] 1 7 100) = 197"
    by (simp add: getBigramProbability_def addBigramsForWordPosition_def
        subscriptBigramMaps_def Let_def dupDict_def init_def initStep_def
        newBigramMap_def bigramMapGetBigramProbability_def isInFilter_def setInFilter_def
        emptyBloomFilter_def bloomIndex_def BLOOM_FILTER_BITS_def
        computeProbabilityForBigram_div NOT_A_PROBABILITY_def MAX_PROBABILITY_def)
  moreover have "readBigramProbabilityFromBinaryDictionary dupDict 1 7 100 = 139"
    by (simp add: readBigramProbabilityFromBinaryDictionary_def dupDict_def
        computeProbabilityForBigram_div NOT_A_PROBABILITY_def MAX_PROBABILITY_def)
  ultimately show ?thesis by simp
qed

text \<open>
  Claim C3, amended. When every map of the cache was built by \<open>init\<close> from the dictionary
  and the bigram list of the previous word gives no target two different probabilities,
  \<open>getBigramProbability\<close> returns what the scan of the list returns, whether the previous
  word is cached already, is cached by this call, or is not cached at all.
\<close>

theorem getBigramProbability_cached_eq_scan:
  assumes "cacheOf dict maps" and "singleValued (dict wordPosition)"
  shows "fst (getBigramProbability maxCached dict maps wordPosition nextWordPosition unigramProbability)
       = readBigramProbabilityFromBinaryDictionary dict wordPosition nextWordPosition unigramProbability"
proof -
  have scan: "readBigramProbabilityFromBinaryDictionary dict wordPosition nextWordPosition unigramProbability
    = bigramMapGetBigramProbability (init dict wordPosition newBigramMap) nextWordPosition unigramProbability"
    by (simp add: readBigramProbabilityFromBinaryDictionary_def scanBigrams_map_of init_lookup
        singleValued_map_of_rev[OF assms(2)])
  show ?thesis
  proof (cases "map_of maps wordPosition")
    case (Some m)
    with cacheOf_map_of[OF assms(1) Some] show ?thesis
      by (simp add: getBigramProbability_def scan)
  next
    case None
    then show ?thesis
      by (simp add: getBigramProbability_def scan addBigramsForWordPosition_def
          subscriptBigramMaps_def map_of_putBigramMap Let_def)
  qed
qed


theorem getBigramProbability_cached_eq_scan_witness:
  "cacheOf okDict [(1, init okDict 1 newBigramMap)] \<and> singleValued (okDict 1)
   \<and> fst (getBigramProbability 25 okDict [(1, init okDict 1 newBigramMap)] 1 8 100) = 197
   \<and> readBigramProbabilityFromBinaryDictionary okDict 1 8 100 = 197"
proof -
  have c: "cacheOf okDict [(1, init okDict 1 newBigramMap)]"
    by (simp add: cacheOf_def)
  have s: "singleValued (okDict 1)"
    by (simp add: singleValued_def okDict_def)
  have r: "readBigramProbabilityFromBinaryDictionary okDict 1 8 100 = 197"
    by (simp add: readBigramProbabilityFromBinaryDictionary_def okDict_def
        computeProbabilityForBigram_div NOT_A_PROBABILITY_def MAX_PROBABILITY_def)
  show ?thesis
    using c s r getBigramProbability_cached_eq_scan [OF c s, of 25 8 100] by simp
qed

section \<open>Properties of \<^verbatim>\<open>appendTwoWords\<close>\<close>

lemma scanWord_eq:
  "nat len \<le> length src \<Longrightarrow> a = i \<Longrightarrow> i \<le> nat len \<Longrightarrow>
   scanWord src len i a = Some (i + length (takeWhile (\<lambda>c. c \<noteq> 0) (drop i (take (nat len) src))))"
proof (induction src len i a rule: scanWord.induct)
  case (1 src len i a)
  show ?case
  proof (cases "int i < len")
    case False
    with 1 have "i = nat len" by linarith
    then show ?thesis using False 1 by (subst scanWord.simps) simp
  next
    case True
    then have il: "i < nat len" by linarith
    with 1 have isrc: "i < length src" by linarith
    have d: "drop i (take (nat len) src) = src ! i # drop (Suc i) (take (nat len) src)"
      using il isrc by (metis Cons_nth_drop_Suc length_take min.absorb2 nth_take "1.prems"(1) )
    show ?thesis
    proof (cases "src ! i = 0")
      case True
      then show ?thesis using \<open>int i < len\<close> isrc d 1 by (subst scanWord.simps) simp
    next
      case False
      have "scanWord src len (i + 1) (i + 1) =
        Some (i + 1 + length (takeWhile (\<lambda>c. c \<noteq> 0) (drop (i + 1) (take (nat len) src))))"
        using "1.IH"[OF True isrc False] 1 il by simp
      then show ?thesis using True isrc d False by (subst scanWord.simps) simp
    qed
  qed
qed

lemma scanWord_wordOf:
  "nat len \<le> length src \<Longrightarrow> scanWord src len 0 0 = Some (length (wordOf src len))"
  using scanWord_eq[of len src 0 0] by (simp add: wordOf_def)

lemma wordOf_prefix: "wordOf src len = take (length (wordOf src len)) src"
  unfolding wordOf_def
  by (metis takeWhile_eq_take take_take min.absorb1 length_takeWhile_le length_take min.cobounded2 le_trans)


lemma length_wordOf_le: "nat len \<le> length src \<Longrightarrow> length (wordOf src len) \<le> length src"
  unfolding wordOf_def by (rule le_trans[OF length_takeWhile_le]) simp

lemma take_min_length: "take (min (length xs) n) xs = take n xs"
  by (simp add: min_def)

lemma memmoveWords_ok:
  "off + n \<le> length dest \<Longrightarrow> n \<le> length src \<Longrightarrow>
   memmoveWords dest off src n = Some (take off dest @ take n src @ drop (off + n) dest)"
  by (simp add: memmoveWords_def)

lemma take_wordOf: "n \<le> length (wordOf src len) \<Longrightarrow> take n src = take n (wordOf src len)"
  by (metis wordOf_prefix take_take min.absorb1)

text \<open>
  Claim C10. When \<open>src0\<close> holds \<open>length0\<close> entries, \<open>src1\<close> (if not null) holds
  \<open>length1\<close> entries and \<open>dest\<close> has room for \<open>MAX_WORD_LENGTH\<close> code points,
  \<open>appendTwoWords\<close> returns normally; \<open>dest\<close> then starts with the code points of
  \<open>src0\<close> before its first 0, cut to \<open>MAX_WORD_LENGTH\<close>, followed by the code points of
  \<open>src1\<close> before its first 0, cut to the room that is left; the rest of \<open>dest\<close> is
  untouched; the returned count is the number of code points written and is at most
  \<open>MAX_WORD_LENGTH\<close>.
\<close>

theorem appendTwoWords_correct:
  assumes l0: "nat length0 \<le> length src0"
    and l1: "\<forall>s1. src1 = Some s1 \<longrightarrow> nat length1 \<le> length s1"
    and ld: "MAX_WORD_LENGTH \<le> length dest"
  defines "w0 \<equiv> take MAX_WORD_LENGTH (wordOf src0 length0)"
  defines "w1 \<equiv> (case src1 of None \<Rightarrow> []
                 | Some s1 \<Rightarrow> take (MAX_WORD_LENGTH - length w0) (wordOf s1 length1))"
  shows "appendTwoWords src0 length0 src1 length1 dest
           = Some (w0 @ w1 @ drop (length w0 + length w1) dest, length w0 + length w1)
         \<and> length w0 + length w1 \<le> MAX_WORD_LENGTH"
proof -
  define n0 where "n0 = min (length (wordOf src0 length0)) MAX_WORD_LENGTH"
  have a0: "length w0 = n0" by (simp add: w0_def n0_def)
  have t0: "take n0 src0 = w0"
    unfolding w0_def n0_def using take_wordOf[of n0 src0 length0]
    by (simp add: n0_def take_min_length)
  have n0src: "n0 \<le> length src0" using length_wordOf_le[OF l0] by (simp add: n0_def)
  have n0max: "n0 \<le> MAX_WORD_LENGTH" by (simp add: n0_def)
  have s0: "scanWord src0 length0 0 0 = Some (length (wordOf src0 length0))"
    by (rule scanWord_wordOf[OF l0])
  have m0: "memmoveWords dest 0 src0 n0 = Some (w0 @ drop n0 dest)"
  proof -
    have "0 + n0 \<le> length dest" using ld n0max by simp
    from memmoveWords_ok[OF this n0src] show ?thesis by (simp add: t0)
  qed
  have head: "appendTwoWords src0 length0 src1 length1 dest =
     (case src1 of
        None \<Rightarrow> Some (w0 @ drop n0 dest, n0)
      | Some s1 \<Rightarrow>
          if length1 = 0 then Some (w0 @ drop n0 dest, n0)
          else
            (case scanWord s1 length1 0 0 of
               None \<Rightarrow> None
             | Some scanned1 \<Rightarrow>
                 let actualLength1 = min scanned1 (MAX_WORD_LENGTH - n0) in
                 (case memmoveWords (w0 @ drop n0 dest) n0 s1 actualLength1 of
                    None \<Rightarrow> None
                  | Some dest2 \<Rightarrow> Some (dest2, n0 + actualLength1))))"
    unfolding appendTwoWords_def s0 by (simp add: n0_def[symmetric] m0 Let_def)
  show ?thesis
  proof (cases src1)
    case None
    then show ?thesis
      unfolding head using a0 n0max by (simp add: w1_def)
  next
    case (Some s1)
    with l1 have l1': "nat length1 \<le> length s1" by simp
    define n1 where "n1 = min (length (wordOf s1 length1)) (MAX_WORD_LENGTH - n0)"
    have w1: "w1 = take (MAX_WORD_LENGTH - n0) (wordOf s1 length1)"
      by (simp add: w1_def Some a0)
    have a1: "length w1 = n1" by (simp add: w1 n1_def)
    have t1: "take n1 s1 = w1"
      unfolding w1 using take_wordOf[of n1 s1 length1]
      by (simp add: n1_def take_min_length)
    have n1src: "n1 \<le> length s1" using length_wordOf_le[OF l1'] by (simp add: n1_def)
    have n1max: "n0 + n1 \<le> MAX_WORD_LENGTH" using n0max by (simp add: n1_def)
    have s1: "scanWord s1 length1 0 0 = Some (length (wordOf s1 length1))"
      by (rule scanWord_wordOf[OF l1'])
    show ?thesis
    proof (cases "length1 = 0")
      case True
      then have "w1 = []" by (simp add: w1 wordOf_def)
      then show ?thesis
        unfolding head using a0 n0max Some True by simp
    next
      case False
      have m1: "memmoveWords (w0 @ drop n0 dest) n0 s1 n1
                  = Some (w0 @ w1 @ drop (n0 + n1) dest)"
      proof -
        have "n0 + n1 \<le> length (w0 @ drop n0 dest)" using ld a0 n1max by simp
        from memmoveWords_ok[OF this n1src] show ?thesis by (simp add: t1 a0 add.commute)
      qed
      show ?thesis
        unfolding head using a0 a1 n1max Some False
        by (simp add: s1 n1_def[symmetric] m1)
    qed
  qed
qed

theorem appendTwoWords_correct_witness:
  "appendTwoWords [104, 105, 0, 7] 4 (Some [33, 0]) 2 (replicate 48 9)
     = Some ([104, 105, 33] @ replicate 45 9, 3)"
  using appendTwoWords_correct [of 4 "[104, 105, 0, 7]" "Some [33, 0]" 2 "replicate 48 9"]
  by (simp add: MAX_WORD_LENGTH_def wordOf_def)

section \<open>Properties of the scoring functions\<close>

lemma plain_code: "fst (getBigramNodeImprobability exactOps 25 okDict plainNode None) = 163 / 255"
  by (simp add: getBigramNodeImprobability_def getBigramNodeProbability_def Let_def plainNode_def NOT_A_DICT_POS_def exactOps_def getProbability_def backoff_def
   NOT_A_PROBABILITY_def MAX_PROBABILITY_def)

lemma plain_map: "fst (getBigramProbability 25 okDict [] 1 7 100) = 139"
    by (simp add: getBigramProbability_def addBigramsForWordPosition_def
        subscriptBigramMaps_def Let_def okDict_def init_def initStep_def
        newBigramMap_def bigramMapGetBigramProbability_def isInFilter_def setInFilter_def
        emptyBloomFilter_def bloomIndex_def BLOOM_FILTER_BITS_def
        computeProbabilityForBigram_div NOT_A_PROBABILITY_def MAX_PROBABILITY_def)

text \<open>
  Claim C7, as stated, at a node with a previous word (position 1) when no
  \<^verbatim>\<open>MultiBigramMap\<close> is passed: the dictionary has the bigram from 1 to 7, the claim's value
  is built from the probability that the map composes for it, and the code returns the
  value built from \<open>getProbability 100 NOT_A_PROBABILITY\<close>.
\<close>

theorem getBigramNodeImprobability_counterexample:
  "prevWordTerminalPtNodePos plainNode \<noteq> NOT_A_DICT_POS
   \<and> fst (getBigramNodeImprobability exactOps 25 okDict plainNode None)
     \<noteq> floatDiv exactOps
         (toFloat exactOps (MAX_PROBABILITY - fst (getBigramProbability 25 okDict [] 
             (prevWordTerminalPtNodePos plainNode) (ptNodePos plainNode) (unigramProbabilityOf plainNode))))
         (toFloat exactOps MAX_PROBABILITY)"
  using plain_code plain_map
  by (simp add: plainNode_def exactOps_def NOT_A_DICT_POS_def MAX_PROBABILITY_def)

text \<open>
  Claim C7, amended. A node that has multiple words and is not a valid multiple-word
  suggestion yields \<open>MAX_VALUE_FOR_WEIGHTING\<close>. Otherwise the result is
  \<open>(MAX_PROBABILITY - p) / MAX_PROBABILITY\<close> computed in float, where \<open>p\<close> comes from the
  \<^verbatim>\<open>MultiBigramMap\<close> when a map is passed and neither the node's position nor its previous
  word's position is \<open>NOT_A_DICT_POS\<close>, and is \<open>getProbability unigram NOT_A_PROBABILITY\<close>
  in every other case.
\<close>

theorem getBigramNodeImprobability_cases:
  "getBigramNodeImprobability ops maxCached dict n mbm =
     (if hasMultipleWords n \<and> \<not> isValidMultipleWordSuggestion n
      then (maxValueForWeighting ops, mbm)
      else
        (case mbm of
           Some maps \<Rightarrow>
             if ptNodePos n \<noteq> NOT_A_DICT_POS \<and> prevWordTerminalPtNodePos n \<noteq> NOT_A_DICT_POS
             then
               (floatDiv ops
                  (toFloat ops (MAX_PROBABILITY
                     - fst (getBigramProbability maxCached dict maps
                              (prevWordTerminalPtNodePos n) (ptNodePos n) (unigramProbabilityOf n))))
                  (toFloat ops MAX_PROBABILITY),
                Some (snd (getBigramProbability maxCached dict maps
                              (prevWordTerminalPtNodePos n) (ptNodePos n) (unigramProbabilityOf n))))
             else
               (floatDiv ops
                  (toFloat ops (MAX_PROBABILITY
                     - getProbability (unigramProbabilityOf n) NOT_A_PROBABILITY))
                  (toFloat ops MAX_PROBABILITY), mbm)
         | None \<Rightarrow>
             (floatDiv ops
                (toFloat ops (MAX_PROBABILITY
                   - getProbability (unigramProbabilityOf n) NOT_A_PROBABILITY))
                (toFloat ops MAX_PROBABILITY), None)))"
  by (auto simp: getBigramNodeImprobability_def getBigramNodeProbability_def Let_def
      split: option.splits prod.splits)

theorem getBigramNodeImprobability_cases_witness:
  "getBigramNodeImprobability exactOps 25 okDict plainNode (Some [])
     = (116 / 255, Some [(1, init okDict 1 newBigramMap)])"
  using getBigramNodeImprobability_cases [of exactOps 25 okDict plainNode "Some []"] plain_map
  apply (simp add: plainNode_def exactOps_def NOT_A_DICT_POS_def MAX_PROBABILITY_def)
  apply (simp add: getBigramProbability_def addBigramsForWordPosition_def
        subscriptBigramMaps_def Let_def )
  done
section \<open>Properties of \<^verbatim>\<open>addWordBigram\<close> and \<^verbatim>\<open>getPredictions\<close>\<close>


lemma drop_append2: "length A \<le> a \<Longrightarrow> drop a (A @ B) = drop (a - length A) B"
  by simp



lemma length_entriesOf [simp]: "length (entriesOf n st) = n"
  by (simp add: entriesOf_def)

































text \<open>
  Claim C9 at a bigram whose word has exactly \<open>MAX_WORD_LENGTH\<close> code points.
  \<^verbatim>\<open>getPredictions\<close> passes its local buffer of \<open>MAX_WORD_LENGTH\<close> cells, and
  \<^verbatim>\<open>word[length] = 0\<close> writes one cell past it. With a buffer that has the extra cell,
  \<^verbatim>\<open>addWordBigram\<close> stores no 0 in the word's slot: the terminator lands in the first cell of
  the next slot, whose word \<open>b\<close> becomes empty.
\<close>

theorem getPredictions_max_length_word_overflow:
  "getPredictions plainEnvironment longWordPolicy [97] 1 [] 0 (replicate MAX_WORD_LENGTH 0)
     oneWordResults = Inl OutOfBounds
   \<and> (case addWordBigram 2 8 (replicate (MAX_WORD_LENGTH + 1) 97) MAX_WORD_LENGTH 100
            oneWordResults of
        Inl e \<Rightarrow> False
      | Inr (w, st) \<Rightarrow>
          entriesOf 2 st = [(100, replicate MAX_WORD_LENGTH 97), (50, [])]
          \<and> 0 \<notin> set (slotOf (bigramCodePoints st) 0))"
  by code_simp

section \<open>Evaluating the trie functions on concrete buffers\<close>

lemmas buffer_eval =
  byteAt_def getTailPosition_def readUint_def writeUint_def writeBytes_def uintBytes_def
  upt_rec[of _ "numeral _"]
  readPtNodeArraySize_def readForwardLinkPosition_def readChildrenPosition_def
  readParentOffset_def readCodePoints_def getFlagsAndAdvancePosition_def CODE_POINT_SIZE_def
  writeFlagsAndAdvancePosition_def writeParentOffsetAndAdvancePosition_def
  writeChildrenPositionAndAdvancePosition_def writeForwardLinkPositionAndAdvancePosition_def
  writeProbabilityAndAdvancePosition_def writePtNodeArraySizeAndAdvancePosition_def
  writeCodePointsAndAdvancePosition_def
  hasFlag_def flagsIsMoved_def flagsIsDeleted_def createAndGetFlags_def updateAndGetFlags_def
  FLAG_IS_TERMINAL_def FLAG_HAS_SHORTCUT_TARGETS_def FLAG_HAS_BIGRAMS_def
  FLAG_IS_BLACKLISTED_def FLAG_IS_NOT_A_WORD_def FLAG_HAS_MULTIPLE_CHARS_def
  FLAG_IS_MOVED_def FLAG_IS_DELETED_def FLAG_IS_NOT_MOVED_def
  NOT_A_DICT_POS_def NOT_A_PROBABILITY_def NOT_A_VALID_WORD_POS_def
  CHILDREN_POSITION_FIELD_SIZE_def

lemmas reader_eval =
  nextNodeArray.simps setError_def followForwardLink_def fetchNodeInfo_def
  fetchNodeInfoFromBuffer_def parsePtNode_def isEnd_def isError_def initWithNodeArrayPos_def
  stepToSiblingNode_def skipDeletedNodes.simps
  readNextSiblingNode_def readChildNode_def Let_def emptyNodeReader_def
  nrHasChildren_def nrCodePointCount_def nrIsTerminal_def nrIsDeleted_def nrIsBlacklisted_def
  nrIsNotAWord_def getPrevTotalCodePointCount_def getTotalCodePointCount_def
  getMergedNodeCodePoints_def isMatchedCodePoint_def getPosOfLastForwardLinkField_def

lemmas writer_eval =
  writePtNodeWithFullInfoToBuffer_def writePtNodeToBuffer_def
  writePtNodeToBufferByCopyingPtNodeInfo_def updateChildrenParentPosition.simps
  markNodeAsMovedAndSetPosition_def createNewPtNodeArrayWithAChildPtNode_def
  createAndInsertNodeIntoPtNodeArray_def setPtNodeProbability_def
  createChildrenPtNodeArrayAndAChildPtNode_def reallocatePtNodeAndAddNewPtNodes_def
  helperAddBigramWords_def helperRemoveBigramWords_def firstDifference_def
  addUnigramWordLoop.simps helperAddUnigramWord_def

lemmas policy_eval =
  pushLeavingChild_def childNodesLoop.simps createAndGetAllChildNodes_def searchLoop.simps
  getTerminalNodePositionOfWord_def getUnigramProbabilityOfPtNode_def addUnigramWord_def
  addBigramWords_def removeBigramWords_def listlessEnv_def

section \<open>Mutations that fail\<close>

text \<open>
  Claim C4, as stated, at a dictionary with the words \<open>a\<close> and \<open>b\<close> whose buffer is at its
  cap. \<^verbatim>\<open>addBigramWords\<close> marks the PtNode of \<open>a\<close> as moved, in place; the copy of the node
  can then not be appended, and the call returns false with the mark in the buffer.
\<close>

theorem addBigramWords_failure_counterexample:
  "addBigramWords listlessEnv (twoWordDictionary 40) [97] 1 [98] 1 5
     = Some (False, twoWordBufferMarked 40)
   \<and> twoWordBufferMarked 40 \<noteq> mBufferWithExtendableBuffer (twoWordDictionary 40)"
  by (simp add: buffer_eval reader_eval writer_eval policy_eval twoWordDictionary_def
      twoWordBuffer_def twoWordBufferMarked_def)

subsection \<open>A mutation whose first write is refused\<close>

lemma markNodeAsMoved_refused:
  assumes "firstWriteOfMarkNodeAsMoved b n = None"
  shows "markNodeAsMovedAndSetPosition env b n movedPos linkedPos = (False, b)"
  using assms by (simp add: markNodeAsMovedAndSetPosition_def firstWriteOfMarkNodeAsMoved_def Let_def)

lemma setPtNodeProbability_refused:
  assumes "(if nrIsTerminal n
            then writeProbabilityAndAdvancePosition b p (nrProbabilityFieldPos n)
            else firstWriteOfMarkNodeAsMoved b n) = None"
  shows "setPtNodeProbability env b n p cps = (False, b)"
  using assms
  by (auto simp: setPtNodeProbability_def Let_def markNodeAsMoved_refused split: if_splits)

lemma writePtNodeWithFullInfoToBuffer_refused:
  assumes "writeFlagsAndAdvancePosition b 0 pos = None"
  shows "writePtNodeWithFullInfoToBuffer env b bl nw parentPos cps n p ch bi sh pos
           = (False, b, pos)"
  using assms by (simp add: writePtNodeWithFullInfoToBuffer_def Let_def)

lemma reallocate_refused:
  assumes "writeFlagsAndAdvancePosition b 0 (getTailPosition b) = None"
  shows "reallocatePtNodeAndAddNewPtNodes env b n cps k p newCps newCount = (False, b)"
  using assms
  by (simp add: reallocatePtNodeAndAddNewPtNodes_def Let_def writePtNodeToBuffer_def
      writePtNodeWithFullInfoToBuffer_refused)

lemma createChildren_refused:
  assumes "writeChildrenPositionAndAdvancePosition b (getTailPosition b) (nrChildrenPosFieldPos n)
             = None"
  shows "createChildrenPtNodeArrayAndAChildPtNode env b n p cps count = (False, b)"
  using assms by (simp add: createChildrenPtNodeArrayAndAChildPtNode_def Let_def)

lemma createAndInsert_refused:
  assumes "writeForwardLinkPositionAndAdvancePosition b (getTailPosition b) fl = None"
  shows "createAndInsertNodeIntoPtNodeArray env b parentPos cps count p fl = (False, b)"
  using assms by (simp add: createAndInsertNodeIntoPtNodeArray_def Let_def)

lemma helperAddBigramWords_refused:
  assumes "firstWriteOfMarkNodeAsMoved b (fetchNodeInfoFromBuffer env b word0Pos) = None"
  shows "helperAddBigramWords env b word0Pos word1Pos p = (False, b)"
  using assms by (simp add: helperAddBigramWords_def Let_def markNodeAsMoved_refused)

lemma addUnigramWordLoop_refused:
  "firstWriteOfAddUnigramWordLoop env w p b st = None \<Longrightarrow>
   addUnigramWordLoop env w p b parentPos st \<noteq> None \<Longrightarrow>
   addUnigramWordLoop env w p b parentPos st = Some (False, b)"
proof (induction env w p b parentPos st rule: addUnigramWordLoop.induct)
  case (1 env w p b parentPos st)
  note fw = "1.prems"(1)[unfolded firstWriteOfAddUnigramWordLoop.simps[of env w p b st]]
  note run = "1.prems"(2)[unfolded addUnigramWordLoop.simps[of env w p b parentPos st]]
  show ?case
  proof (cases "isEnd st")
    case True
    with fw show ?thesis
      by (subst addUnigramWordLoop.simps) (auto simp: createAndInsert_refused split: if_splits)
  next
    case ne: False
    show ?thesis
    proof (cases "getPrevTotalCodePointCount st \<ge> length w")
      case True
      with ne run show ?thesis by simp
    next
      case inWord: False
      show ?thesis
      proof (cases "isMatchedCodePoint st 0 (w ! getPrevTotalCodePointCount st)")
        case False
        from fw ne inWord False
        have f: "firstWriteOfAddUnigramWordLoop env w p b (readNextSiblingNode env b st) = None"
          by simp
        from run ne inWord False
        have r: "addUnigramWordLoop env w p b parentPos (readNextSiblingNode env b st) \<noteq> None"
          by simp
        from "1.IH"(1)[OF ne inWord False f r] ne inWord False show ?thesis
          by (subst addUnigramWordLoop.simps) simp
      next
        case matched: True
        show ?thesis
        proof (cases "firstDifference st w (getPrevTotalCodePointCount st)")
          case (Some j)
          with fw ne inWord matched show ?thesis
            by (subst addUnigramWordLoop.simps) (simp add: reallocate_refused)
        next
          case None
          show ?thesis
          proof (cases "length w = getTotalCodePointCount st")
            case True
            with fw ne inWord matched None show ?thesis
              by (subst addUnigramWordLoop.simps) (simp add: setPtNodeProbability_refused)
          next
            case longer: False
            show ?thesis
            proof (cases "nrHasChildren (rhNodeReader st)")
              case False
              with fw ne inWord matched None longer show ?thesis
                by (subst addUnigramWordLoop.simps) (simp add: createChildren_refused)
            next
              case True
              from fw ne inWord matched None longer True
              have f: "firstWriteOfAddUnigramWordLoop env w p b (readChildNode env b st) = None"
                by simp
              from run ne inWord matched None longer True
              have r: "addUnigramWordLoop env w p b (nrHeadPos (rhNodeReader st))
                         (readChildNode env b st) \<noteq> None"
                by simp
              from "1.IH"(2)[OF ne inWord _ None longer _ f r] matched True
                ne inWord None longer show ?thesis
                by (subst addUnigramWordLoop.simps) simp
            qed
          qed
        qed
      qed
    qed
  qed
qed

text \<open>
  Claim C4, amended. A mutation that returns before a write of the call has succeeded
  returns false and leaves the buffer as it was. For \<^verbatim>\<open>addUnigramWord\<close> and
  \<^verbatim>\<open>addBigramWords\<close> that is the case when the dictionary is not updatable, when a word of
  \<^verbatim>\<open>addBigramWords\<close> is not found, when the reading helper ends in its error state, and when
  the first write that the writing helper attempts is refused; for \<^verbatim>\<open>removeBigramWords\<close>,
  which writes through the bigram list policy only, when the dictionary is not updatable,
  when a word is not found and when the PtNode of the first word has no bigram list.
\<close>

theorem mutations_without_write_leave_buffer:
  "(firstWriteOfAddUnigramWord env pol w n p = None \<and> addUnigramWord env pol w n p \<noteq> None
      \<longrightarrow> addUnigramWord env pol w n p = Some (False, mBufferWithExtendableBuffer pol))
   \<and> (firstWriteOfAddBigramWords env pol w0 n0 w1 n1 = None
        \<and> addBigramWords env pol w0 n0 w1 n1 q \<noteq> None
      \<longrightarrow> addBigramWords env pol w0 n0 w1 n1 q = Some (False, mBufferWithExtendableBuffer pol))
   \<and> (removeBigramWordsReturnsEarly env pol w0 n0 w1 n1
      \<longrightarrow> removeBigramWords env pol w0 n0 w1 n1
            = Some (False, mBufferWithExtendableBuffer pol))"
proof (intro conjI impI)
  assume a: "firstWriteOfAddUnigramWord env pol w n p = None \<and> addUnigramWord env pol w n p \<noteq> None"
  show "addUnigramWord env pol w n p = Some (False, mBufferWithExtendableBuffer pol)"
  proof (cases "\<not> mIsUpdatable pol")
    case True
    then show ?thesis by (simp add: addUnigramWord_def)
  next
    case False
    with a have len: "\<not> n > length w" by (auto simp: addUnigramWord_def)
    from a False len show ?thesis
      using addUnigramWordLoop_refused[of env "take n w" p "mBufferWithExtendableBuffer pol"
          "initWithNodeArrayPos env (mBufferWithExtendableBuffer pol) (mRootPosition pol)"
          NOT_A_DICT_POS]
      by (simp add: addUnigramWord_def firstWriteOfAddUnigramWord_def helperAddUnigramWord_def)
  qed
next
  assume "firstWriteOfAddBigramWords env pol w0 n0 w1 n1 = None
          \<and> addBigramWords env pol w0 n0 w1 n1 q \<noteq> None"
  then show "addBigramWords env pol w0 n0 w1 n1 q = Some (False, mBufferWithExtendableBuffer pol)"
    by (auto simp: addBigramWords_def firstWriteOfAddBigramWords_def helperAddBigramWords_refused
             split: if_splits option.splits)
next
  assume "removeBigramWordsReturnsEarly env pol w0 n0 w1 n1"
  then show "removeBigramWords env pol w0 n0 w1 n1 = Some (False, mBufferWithExtendableBuffer pol)"
    by (auto simp: removeBigramWords_def removeBigramWordsReturnsEarly_def
                   helperRemoveBigramWords_def Let_def
             split: if_splits option.splits)
qed

theorem mutations_without_write_leave_buffer_witness:
  "firstWriteOfAddUnigramWord listlessEnv (longWordDictionary 36) [97, 98, 99, 120, 121] 5 20 = None
   \<and> addUnigramWord listlessEnv (longWordDictionary 36) [97, 98, 99, 120, 121] 5 20
       = Some (False, longWordBuffer 36)
   \<and> firstWriteOfAddUnigramWord listlessEnv (twoWordDictionary 1000) [97] 1 256 = None
   \<and> addUnigramWord listlessEnv (twoWordDictionary 1000) [97] 1 256
       = Some (False, twoWordBuffer 1000)
   \<and> firstWriteOfAddBigramWords listlessEnv (twoWordDictionary 40) [97] 1 [99] 1 = None
   \<and> addBigramWords listlessEnv (twoWordDictionary 40) [97] 1 [99] 1 5
       = Some (False, twoWordBuffer 40)
   \<and> removeBigramWordsReturnsEarly listlessEnv (twoWordDictionary 40) [97] 1 [98] 1
   \<and> removeBigramWords listlessEnv (twoWordDictionary 40) [97] 1 [98] 1
       = Some (False, twoWordBuffer 40)"
proof -
  note eval = buffer_eval reader_eval writer_eval policy_eval
    firstWriteOfAddUnigramWord_def firstWriteOfAddUnigramWordLoop.simps
    firstWriteOfAddBigramWords_def firstWriteOfMarkNodeAsMoved_def
    removeBigramWordsReturnsEarly_def
    twoWordDictionary_def twoWordBuffer_def longWordDictionary_def longWordBuffer_def
  have f1: "firstWriteOfAddUnigramWord listlessEnv (longWordDictionary 36)
              [97, 98, 99, 120, 121] 5 20 = None"
    by (simp add: eval)
  have r1: "addUnigramWord listlessEnv (longWordDictionary 36) [97, 98, 99, 120, 121] 5 20 \<noteq> None"
    by (simp add: eval)
  have f2: "firstWriteOfAddUnigramWord listlessEnv (twoWordDictionary 1000) [97] 1 256 = None"
    by (simp add: eval)
  have r2: "addUnigramWord listlessEnv (twoWordDictionary 1000) [97] 1 256 \<noteq> None"
    by (simp add: eval)
  have f3: "firstWriteOfAddBigramWords listlessEnv (twoWordDictionary 40) [97] 1 [99] 1 = None"
    by (simp add: eval)
  have r3: "addBigramWords listlessEnv (twoWordDictionary 40) [97] 1 [99] 1 5 \<noteq> None"
    by (simp add: eval)
  have f4: "removeBigramWordsReturnsEarly listlessEnv (twoWordDictionary 40) [97] 1 [98] 1"
    by (simp add: eval)
  show ?thesis
    using f1 r1 f2 r2 f3 r3 f4
      mutations_without_write_leave_buffer
        [of listlessEnv "longWordDictionary 36" "[97, 98, 99, 120, 121]" 5 20]
      mutations_without_write_leave_buffer [of listlessEnv "twoWordDictionary 1000" "[97]" 1 256]
      mutations_without_write_leave_buffer
        [of listlessEnv "twoWordDictionary 40" _ _ _ "[97]" 1 "[99]" 1 5]
      mutations_without_write_leave_buffer
        [of listlessEnv "twoWordDictionary 40" _ _ _ "[97]" 1 "[98]" 1]
    by (simp add: twoWordDictionary_def longWordDictionary_def)
qed
section \<open>The children of a node\<close>

lemma readCodePoints_forward: "pos \<le> snd (readCodePoints b pos)"
  by (simp add: readCodePoints_def Let_def)

lemma parsePtNode_sibling:
  assumes "skipsForward env"
  shows "pos < nrSiblingPos (parsePtNode env b pos)"
proof -
  let ?p1 = "snd (readCodePoints b (pos + 4))"
  let ?p2 = "if hasFlag (fst (getFlagsAndAdvancePosition b pos)) FLAG_IS_TERMINAL then ?p1 + 1 else ?p1"
  let ?p4 = "if hasFlag (fst (getFlagsAndAdvancePosition b pos)) FLAG_HAS_SHORTCUT_TARGETS
             then skipAllShortcuts env b (?p2 + 3) else ?p2 + 3"
  have 1: "pos + 4 \<le> ?p1" by (rule readCodePoints_forward)
  have 2: "?p2 + 3 \<le> ?p4" using assms by (simp add: skipsForward_def)
  have 3: "?p4 \<le> nrSiblingPos (parsePtNode env b pos)"
    using assms by (simp add: parsePtNode_def Let_def skipsForward_def)
  from 1 2 3 show ?thesis by (simp split: if_splits)
qed

lemma fetch_sibling_eq:
  "nrSiblingPos (fetchNodeInfoFromBuffer env b pos) = nrSiblingPos (parsePtNode env b pos)"
  by (simp add: fetchNodeInfoFromBuffer_def Let_def)

text \<open>What is reported for a list of fetched PtNodes: a child for each that is not deleted.\<close>

lemma childOfPtNode_fetch:
  "childOfPtNode (fetchNodeInfoFromBuffer env b pos) = childOfPtNode (reportedPtNode env b pos)"
  "nrIsDeleted (fetchNodeInfoFromBuffer env b pos) = nrIsDeleted (reportedPtNode env b pos)"
  by (simp_all add: fetchNodeInfoFromBuffer_def reportedPtNode_def Let_def childOfPtNode_def
      nrIsTerminal_def nrIsDeleted_def nrHasChildren_def nrIsBlacklisted_def nrIsNotAWord_def
      nrCodePointCount_def)

lemma report_fetch:
  "map childOfPtNode (filter (\<lambda>n. \<not> nrIsDeleted n) (fetchNodeInfoFromBuffer env b pos # ns))
     = map childOfPtNode (filter (\<lambda>n. \<not> nrIsDeleted n) [reportedPtNode env b pos])
       @ map childOfPtNode (filter (\<lambda>n. \<not> nrIsDeleted n) ns)"
  by (simp add: childOfPtNode_fetch)

lemma pushLeavingChild_eq: "pushLeavingChild st = childOfPtNode (rhNodeReader st)"
  by (simp add: pushLeavingChild_def childOfPtNode_def Let_def getMergedNodeCodePoints_def)

lemma childNodesLoop_end: "isEnd st \<Longrightarrow> childNodesLoop env b st = []"
  by (subst childNodesLoop.simps) simp

lemma childNodesLoop_step:
  "\<not> isEnd st \<Longrightarrow> childNodesLoop env b st
     = childOfPtNode (rhNodeReader st) # childNodesLoop env b (readNextSiblingNode env b st)"
  by (subst childNodesLoop.simps) (simp add: pushLeavingChild_eq)

lemma fetchedNodes_end: "isEnd st \<Longrightarrow> fetchedNodes env b st = []"
  by (subst fetchedNodes.simps) simp

lemma fetchedNodes_step:
  "\<not> isEnd st \<Longrightarrow> fetchedNodes env b st
     = rhNodeReader st # fetchedNodes env b (stepToSiblingNode env b st)"
  by (subst fetchedNodes.simps) simp

text \<open>The loop of the source reports the fetched PtNodes that are not deleted.\<close>

lemma childNodesLoop_skip:
  "childNodesLoop env b (skipDeletedNodes env b st)
     = map childOfPtNode (filter (\<lambda>n. \<not> nrIsDeleted n) (fetchedNodes env b st))"
proof (induction env b st rule: fetchedNodes.induct)
  case (1 env b st)
  show ?case
  proof (cases "isEnd st")
    case True
    then have "skipDeletedNodes env b st = st" by (subst skipDeletedNodes.simps) simp
    with True show ?thesis by (simp add: childNodesLoop_end fetchedNodes_end)
  next
    case False
    show ?thesis
    proof (cases "nrIsDeleted (rhNodeReader st)")
      case True
      with False
      have "skipDeletedNodes env b st = skipDeletedNodes env b (stepToSiblingNode env b st)"
        by (subst skipDeletedNodes.simps) simp
      with "1.IH"[OF False] False True show ?thesis by (simp add: fetchedNodes_step)
    next
      case live: False
      with False have s: "skipDeletedNodes env b st = st"
        by (subst skipDeletedNodes.simps) simp
      have "childNodesLoop env b st
              = childOfPtNode (rhNodeReader st)
                # childNodesLoop env b (skipDeletedNodes env b (stepToSiblingNode env b st))"
        using False by (simp add: childNodesLoop_step readNextSiblingNode_def)
      with "1.IH"[OF False] False live show ?thesis by (simp add: s fetchedNodes_step)
    qed
  qed
qed

lemma loop_in_array:
  assumes sf: "skipsForward env"
    and cont: "\<And>st'. rhNodeArrayCount st' = a \<Longrightarrow> rhTotalNodeCount st' = t \<Longrightarrow>
       map childOfPtNode (filter (\<lambda>n. \<not> nrIsDeleted n)
           (fetchedNodes env b (fetchNodeInfo env b (nextNodeArray env b st'))))
         = map childOfPtNode (filter (\<lambda>n. \<not> nrIsDeleted n)
             (arrayChain env b (maxNodeArrayCount env - a) (maxChildCount env - t) (rhPos st')))"
  shows "rhPos st = q \<Longrightarrow> 0 < q \<Longrightarrow> rhNodeCount st = Suc n \<Longrightarrow>
    rhNodeReader st = fetchNodeInfoFromBuffer env b q \<Longrightarrow>
    rhNodeArrayCount st = a \<Longrightarrow> rhTotalNodeCount st = t \<Longrightarrow>
    map childOfPtNode (filter (\<lambda>n. \<not> nrIsDeleted n) (fetchedNodes env b st))
      = map childOfPtNode (filter (\<lambda>n. \<not> nrIsDeleted n) (nodesOfArray env b q (Suc n)))
        @ (if readForwardLinkPosition b (endOfArray env b q (Suc n)) \<noteq> NOT_A_DICT_POS
           then map childOfPtNode (filter (\<lambda>n. \<not> nrIsDeleted n)
                  (arrayChain env b (maxNodeArrayCount env - a) (maxChildCount env - t)
                     (readForwardLinkPosition b (endOfArray env b q (Suc n)))))
           else [])"
proof (induction n arbitrary: st q)
  case 0
  let ?sib = "nrSiblingPos (parsePtNode env b q)"
  let ?link = "readForwardLinkPosition b ?sib"
  have ne: "\<not> isEnd st" using 0 by (simp add: isEnd_def NOT_A_DICT_POS_def)
  have fs: "fetchedNodes env b st
              = fetchNodeInfoFromBuffer env b q # fetchedNodes env b (stepToSiblingNode env b st)"
    using ne 0 by (simp add: fetchedNodes_step)
  show ?case
  proof (cases "?link \<noteq> NOT_A_DICT_POS")
    case True
    let ?st' = "st\<lparr> rhNodeCount := 0, rhPos := ?sib, rhPosOfLastForwardLinkField := ?sib,
                     rhPos := ?link \<rparr>"
    have r: "stepToSiblingNode env b st = fetchNodeInfo env b (nextNodeArray env b ?st')"
      using 0 True
      by (simp add: stepToSiblingNode_def followForwardLink_def Let_def fetch_sibling_eq)
    have "map childOfPtNode (filter (\<lambda>n. \<not> nrIsDeleted n)
              (fetchedNodes env b (stepToSiblingNode env b st)))
       = map childOfPtNode (filter (\<lambda>n. \<not> nrIsDeleted n)
           (arrayChain env b (maxNodeArrayCount env - a) (maxChildCount env - t) ?link))"
      unfolding r using cont[of ?st'] 0 by simp
    then show ?thesis using True unfolding fs report_fetch by simp
  next
    case False
    have "isEnd (stepToSiblingNode env b st)"
      using 0 False by (simp add: stepToSiblingNode_def followForwardLink_def Let_def
          isEnd_def fetchNodeInfo_def fetch_sibling_eq)
    then show ?thesis using False unfolding fs report_fetch by (simp add: fetchedNodes_end)
  qed
next
  case (Suc n)
  let ?sib = "nrSiblingPos (parsePtNode env b q)"
  have ne: "\<not> isEnd st" using Suc.prems by (simp add: isEnd_def NOT_A_DICT_POS_def)
  have fs: "fetchedNodes env b st
              = fetchNodeInfoFromBuffer env b q # fetchedNodes env b (stepToSiblingNode env b st)"
    using ne Suc.prems by (simp add: fetchedNodes_step)
  have sp: "0 < ?sib" using parsePtNode_sibling[OF sf, of q b] Suc.prems by simp
  let ?st1 = "st\<lparr> rhNodeCount := Suc n, rhPos := ?sib,
                    rhNodeReader := fetchNodeInfoFromBuffer env b ?sib \<rparr>"
  have r: "stepToSiblingNode env b st = ?st1"
    using Suc.prems sp
    by (simp add: stepToSiblingNode_def Let_def fetchNodeInfo_def isEnd_def NOT_A_DICT_POS_def
        fetch_sibling_eq)
  have "map childOfPtNode (filter (\<lambda>n. \<not> nrIsDeleted n) (fetchedNodes env b ?st1))
      = map childOfPtNode (filter (\<lambda>n. \<not> nrIsDeleted n) (nodesOfArray env b ?sib (Suc n)))
        @ (if readForwardLinkPosition b (endOfArray env b ?sib (Suc n)) \<noteq> NOT_A_DICT_POS
           then map childOfPtNode (filter (\<lambda>n. \<not> nrIsDeleted n)
                  (arrayChain env b (maxNodeArrayCount env - a) (maxChildCount env - t)
                     (readForwardLinkPosition b (endOfArray env b ?sib (Suc n)))))
           else [])"
    using Suc.prems sp by (intro Suc.IH) simp_all
  then show ?case unfolding fs report_fetch r by simp
qed

lemma loop_from_array:
  assumes sf: "skipsForward env"
  shows "rhTotalNodeCount st \<le> maxChildCount env \<Longrightarrow>
    map childOfPtNode (filter (\<lambda>n. \<not> nrIsDeleted n)
        (fetchedNodes env b (fetchNodeInfo env b (nextNodeArray env b st))))
      = map childOfPtNode (filter (\<lambda>n. \<not> nrIsDeleted n)
          (arrayChain env b (maxNodeArrayCount env - rhNodeArrayCount st)
             (maxChildCount env - rhTotalNodeCount st) (rhPos st)))"
proof (induction "maxNodeArrayCount env + 1 - rhNodeArrayCount st" arbitrary: st
       rule: less_induct)
  case less
  let ?a = "rhNodeArrayCount st" and ?t = "rhTotalNodeCount st"
  let ?size = "fst (readPtNodeArraySize b (rhPos st))"
  let ?p = "snd (readPtNodeArraySize b (rhPos st))"
  let ?link = "readForwardLinkPosition b ?p"
  show ?case
  proof (cases "?a + 1 > maxNodeArrayCount env")
    case True
    then have "nextNodeArray env b st = setError st"
      by (subst nextNodeArray.simps) simp
    moreover from True have "maxNodeArrayCount env - ?a = 0" by simp
    ultimately show ?thesis
      by (simp add: fetchedNodes_end isEnd_def setError_def fetchNodeInfo_def)
  next
    case False
    then obtain k where k: "maxNodeArrayCount env - ?a = Suc k"
      by (metis Suc_diff_Suc add.commute not_less_eq plus_1_eq_Suc not_less less_Suc_eq_le)
    then have k': "maxNodeArrayCount env - (?a + 1) = k" by simp
    show ?thesis
    proof (cases "rhPos st < 0 \<or> rhPos st \<ge> getTailPosition b")
      case True
      then have "nextNodeArray env b st = setError st"
        by (subst nextNodeArray.simps) simp
      then show ?thesis using True k
        by (simp add: fetchedNodes_end isEnd_def setError_def fetchNodeInfo_def)
    next
      case inRange: False
      show ?thesis
      proof (cases "?size > maxChildCount env - ?t")
        case True
        then have "nextNodeArray env b st = setError st"
          using less.prems by (subst nextNodeArray.simps) auto
        then show ?thesis using True k inRange
          by (simp add: fetchedNodes_end isEnd_def setError_def fetchNodeInfo_def)
      next
        case fits: False
        then have fits': "\<not> ?t + ?size > maxChildCount env" using less.prems by simp
        show ?thesis
        proof (cases "?size = 0")
          case True
          show ?thesis
          proof (cases "?link \<noteq> NOT_A_DICT_POS")
            case link: True
            let ?st' = "st\<lparr> rhPos := ?link, rhNodeCount := 0,
                     rhNodeArrayCount := ?a + 1,
                     rhPosOfLastForwardLinkField := ?p \<rparr>"
            have eq: "nextNodeArray env b st = nextNodeArray env b ?st'"
              using inRange fits' False True link by (subst nextNodeArray.simps) simp
            have "map childOfPtNode (filter (\<lambda>n. \<not> nrIsDeleted n)
                    (fetchedNodes env b (fetchNodeInfo env b (nextNodeArray env b ?st'))))
              = map childOfPtNode (filter (\<lambda>n. \<not> nrIsDeleted n)
                  (arrayChain env b (maxNodeArrayCount env - rhNodeArrayCount ?st')
                     (maxChildCount env - rhTotalNodeCount ?st') (rhPos ?st')))"
              using False less.prems by (intro less.hyps) simp_all
            then show ?thesis using eq k k' inRange fits True link by simp
          next
            case nolink: False
            have "rhPos (nextNodeArray env b st) = NOT_A_DICT_POS"
              using inRange fits' False True nolink by (subst nextNodeArray.simps) simp
            then show ?thesis using k inRange fits True nolink
              by (simp add: fetchedNodes_end isEnd_def)
          qed
        next
          case nonempty: False
          then obtain n where n: "?size = Suc n" by (cases ?size) auto
          let ?st1 = "st\<lparr> rhPos := ?p, rhNodeCount := ?size,
               rhTotalNodeCount := ?t + ?size, rhNodeArrayCount := ?a + 1 \<rparr>"
          have eq: "nextNodeArray env b st = ?st1"
            using inRange fits' False nonempty by (subst nextNodeArray.simps) simp
          have pp: "0 < ?p" using inRange by (simp add: readPtNodeArraySize_def Let_def)
          let ?st2 = "?st1\<lparr> rhNodeReader := fetchNodeInfoFromBuffer env b ?p \<rparr>"
          have f: "fetchNodeInfo env b ?st1 = ?st2"
            using pp by (simp add: fetchNodeInfo_def isEnd_def NOT_A_DICT_POS_def)
          have cont: "\<And>st'. rhNodeArrayCount st' = ?a + 1 \<Longrightarrow> rhTotalNodeCount st' = ?t + ?size \<Longrightarrow>
             map childOfPtNode (filter (\<lambda>n. \<not> nrIsDeleted n)
                 (fetchedNodes env b (fetchNodeInfo env b (nextNodeArray env b st'))))
               = map childOfPtNode (filter (\<lambda>n. \<not> nrIsDeleted n)
                   (arrayChain env b (maxNodeArrayCount env - (?a + 1))
                    (maxChildCount env - (?t + ?size)) (rhPos st')))"
          proof -
            fix st' :: readingHelper
            assume a: "rhNodeArrayCount st' = ?a + 1" and t: "rhTotalNodeCount st' = ?t + ?size"
            have "map childOfPtNode (filter (\<lambda>n. \<not> nrIsDeleted n)
                    (fetchedNodes env b (fetchNodeInfo env b (nextNodeArray env b st'))))
              = map childOfPtNode (filter (\<lambda>n. \<not> nrIsDeleted n)
                  (arrayChain env b (maxNodeArrayCount env - rhNodeArrayCount st')
                     (maxChildCount env - rhTotalNodeCount st') (rhPos st')))"
              using False a t fits' by (intro less.hyps) simp_all
            then show "map childOfPtNode (filter (\<lambda>n. \<not> nrIsDeleted n)
                 (fetchedNodes env b (fetchNodeInfo env b (nextNodeArray env b st'))))
               = map childOfPtNode (filter (\<lambda>n. \<not> nrIsDeleted n)
                   (arrayChain env b (maxNodeArrayCount env - (?a + 1))
                    (maxChildCount env - (?t + ?size)) (rhPos st')))"
              by (simp add: a t)
          qed
          have "map childOfPtNode (filter (\<lambda>n. \<not> nrIsDeleted n) (fetchedNodes env b ?st2))
            = map childOfPtNode (filter (\<lambda>n. \<not> nrIsDeleted n) (nodesOfArray env b ?p (Suc n)))
              @ (if readForwardLinkPosition b (endOfArray env b ?p (Suc n)) \<noteq> NOT_A_DICT_POS
                 then map childOfPtNode (filter (\<lambda>n. \<not> nrIsDeleted n)
                   (arrayChain env b (maxNodeArrayCount env - (?a + 1))
                      (maxChildCount env - (?t + ?size))
                      (readForwardLinkPosition b (endOfArray env b ?p (Suc n)))))
                 else [])"
            using pp n by (intro loop_in_array[OF sf cont]) simp_all
          then show ?thesis
            unfolding eq f using k k' inRange fits n
            by (simp del: nodesOfArray.simps endOfArray.simps add: diff_diff_left)
        qed
      qed
    qed
  qed
qed

lemma arrayChain_numeral:
  "arrayChain env b (numeral k) nodesLeft pos =
     (if pos < 0 \<or> pos \<ge> getTailPosition b then []
      else if fst (readPtNodeArraySize b pos) > nodesLeft then []
      else nodesOfArray env b (snd (readPtNodeArraySize b pos)) (fst (readPtNodeArraySize b pos))
           @ (if readForwardLinkPosition b
                   (endOfArray env b (snd (readPtNodeArraySize b pos))
                      (fst (readPtNodeArraySize b pos))) \<noteq> NOT_A_DICT_POS
              then arrayChain env b (pred_numeral k) (nodesLeft - fst (readPtNodeArraySize b pos))
                     (readForwardLinkPosition b
                        (endOfArray env b (snd (readPtNodeArraySize b pos))
                           (fst (readPtNodeArraySize b pos))))
              else []))"
  by (simp only: numeral_eq_Suc arrayChain.simps)

lemma nodesOfArray_numeral:
  "nodesOfArray env b pos (numeral k) =
     reportedPtNode env b pos
       # nodesOfArray env b (nrSiblingPos (parsePtNode env b pos)) (pred_numeral k)"
  "endOfArray env b pos (numeral k) =
     endOfArray env b (nrSiblingPos (parsePtNode env b pos)) (pred_numeral k)"
  by (simp_all only: numeral_eq_Suc nodesOfArray.simps endOfArray.simps)

text \<open>
  Claim C6. For a \<^verbatim>\<open>DicNode\<close> with children, \<^verbatim>\<open>createAndGetAllChildNodes\<close> reports the
  children that section 4.3 of the spec enumerates: it walks the child array and the
  arrays that the forward links lead to, omits every PtNode marked as deleted, and for a
  PtNode marked as moved reports the PtNode at its moved position. The list policies'
  skip functions move forward in the buffer.
\<close>

theorem createAndGetAllChildNodes_enumerates:
  assumes "skipsForward env"
  shows "createAndGetAllChildNodes env pol dicNode =
     (if \<not> dicNodeHasChildren dicNode \<or> dicNodeChildrenPos dicNode = NOT_A_DICT_POS then []
      else map childOfPtNode
             (enumerateChildren env (mBufferWithExtendableBuffer pol)
                (dicNodeChildrenPos dicNode)))"
proof (cases "\<not> dicNodeHasChildren dicNode \<or> dicNodeChildrenPos dicNode = NOT_A_DICT_POS")
  case True
  then show ?thesis
    by (auto simp: createAndGetAllChildNodes_def initWithNodeArrayPos_def Let_def
        childNodesLoop_end isEnd_def)
next
  case False
  let ?b = "mBufferWithExtendableBuffer pol"
  let ?st0 = "\<lparr> rhIsError = False, rhPos = dicNodeChildrenPos dicNode, rhNodeCount = 0,
                 rhPrevTotalCodePointCount = 0, rhTotalNodeCount = 0, rhNodeArrayCount = 0,
                 rhPosOfLastForwardLinkField = NOT_A_DICT_POS,
                 rhNodeReader = emptyNodeReader \<rparr>"
  have "map childOfPtNode (filter (\<lambda>n. \<not> nrIsDeleted n)
          (fetchedNodes env ?b (fetchNodeInfo env ?b (nextNodeArray env ?b ?st0))))
      = map childOfPtNode (filter (\<lambda>n. \<not> nrIsDeleted n)
          (arrayChain env ?b (maxNodeArrayCount env - rhNodeArrayCount ?st0)
             (maxChildCount env - rhTotalNodeCount ?st0) (rhPos ?st0)))"
    by (rule loop_from_array[OF assms]) simp
  then show ?thesis using False
    by (simp add: createAndGetAllChildNodes_def initWithNodeArrayPos_def Let_def
        childNodesLoop_skip enumerateChildren_def)
qed

theorem createAndGetAllChildNodes_enumerates_witness:
  "skipsForward listlessEnv
   \<and> flagsIsMoved (nrFlags (parsePtNode listlessEnv (mBufferWithExtendableBuffer mixedDictionary) 9))
   \<and> nrIsDeleted (parsePtNode listlessEnv (mBufferWithExtendableBuffer mixedDictionary) 25)
   \<and> map nrHeadPos (arrayChain listlessEnv (mBufferWithExtendableBuffer mixedDictionary)
                      1000 1000 4) = [56, 25, 41]
   \<and> map nrHeadPos (enumerateChildren listlessEnv (mBufferWithExtendableBuffer mixedDictionary) 4)
       = [56, 41]
   \<and> map lcPos (createAndGetAllChildNodes listlessEnv mixedDictionary rootDicNode) = [56, 41]
   \<and> map lcProbability (createAndGetAllChildNodes listlessEnv mixedDictionary rootDicNode)
       = [15, 30]"
proof -
  have s: "skipsForward listlessEnv"
    by (simp add: skipsForward_def listlessEnv_def)
  have f: "flagsIsMoved (nrFlags (parsePtNode listlessEnv
                                    (mBufferWithExtendableBuffer mixedDictionary) 9))"
    "nrIsDeleted (parsePtNode listlessEnv (mBufferWithExtendableBuffer mixedDictionary) 25)"
    by (simp_all add: buffer_eval reader_eval mixedDictionary_def listlessEnv_def)
  have c: "map nrHeadPos (arrayChain listlessEnv (mBufferWithExtendableBuffer mixedDictionary)
                      1000 1000 4) = [56, 25, 41]"
    by (simp add: buffer_eval reader_eval mixedDictionary_def listlessEnv_def
        arrayChain_numeral nodesOfArray_numeral reportedPtNode_def)
  have e: "map (\<lambda>n. (nrHeadPos n, nrProbability n))
             (enumerateChildren listlessEnv (mBufferWithExtendableBuffer mixedDictionary) 4)
             = [(56, 15), (41, 30)]"
    by (simp add: enumerateChildren_def buffer_eval reader_eval mixedDictionary_def
        listlessEnv_def arrayChain_numeral nodesOfArray_numeral reportedPtNode_def)
  have r: "dicNodeHasChildren rootDicNode" "dicNodeChildrenPos rootDicNode = 4"
    by (simp_all add: rootDicNode_def)
  have m: "lcPos \<circ> childOfPtNode = nrHeadPos"
    "lcProbability \<circ> childOfPtNode = nrProbability"
    by (simp_all add: fun_eq_iff childOfPtNode_def)
  have e1: "map nrHeadPos
              (enumerateChildren listlessEnv (mBufferWithExtendableBuffer mixedDictionary) 4)
              = [56, 41]"
    and e2: "map nrProbability
              (enumerateChildren listlessEnv (mBufferWithExtendableBuffer mixedDictionary) 4)
              = [15, 30]"
    using arg_cong[OF e, of "map fst"] arg_cong[OF e, of "map snd"] by (simp_all add: comp_def)
  show ?thesis
    using s f c e1 e2
      createAndGetAllChildNodes_enumerates [OF s, of mixedDictionary rootDicNode]
    by (simp add: r NOT_A_DICT_POS_def m)
qed
section \<open>Moved PtNodes and their replacements\<close>

subsection \<open>Reading back what has been written\<close>




















subsection \<open>A PtNode that has been written\<close>










subsection \<open>What \<^verbatim>\<open>markNodeAsMovedAndSetPosition\<close> leaves\<close>




subsection \<open>The three mutations that move a PtNode\<close>









subsection \<open>The children position of a moved PtNode\<close>
















end
